theory Spec2Isabelle
  imports Main "HOL-Library.AList" "HOL-Library.Sublist"
begin

section \<open>Python values, strings and exceptions\<close>

text \<open>
  The embedding follows \<^verbatim>\<open>src/monday_class.py\<close>. Python strings are lists of
  characters with code points below 256. An exception raised by the source is a value of
  type \<open>exn\<close>; a function that may raise returns \<open>exn + 'a\<close> with \<open>Inl\<close> for the raise.
  What the source prints is left out; the prompts of \<^verbatim>\<open>input\<close> are kept.
\<close>

datatype exn =
  RequestException | JSONDecodeError | TypeError | KeyError | IndexError
  | ValueError | EOFError | FileNotFoundError | OtherException

text \<open>
  The scalar a spreadsheet cell or a caller's dictionary holds. The source reads such a
  value only through \<^verbatim>\<open>pd.notna(value)\<close> and \<^verbatim>\<open>str(value)\<close>. A float other than NaN
  is carried by the text \<^verbatim>\<open>str\<close> gives for it, such as \<^verbatim>\<open>5.0\<close>: that text is the
  shortest decimal that reads back as the float and is not computed here.
\<close>

datatype pyval = PyNone | PyNaN | PyStr string | PyInt int | PyFloat string | PyBool bool

fun dec :: "nat \<Rightarrow> string" where
  "dec n = (if n < 10 then [''0123456789'' ! n]
            else dec (n div 10) @ [''0123456789'' ! (n mod 10)])"

declare dec.simps [simp del]

text \<open>
  \<^verbatim>\<open>str(value)\<close>. For an integer of more than \<^verbatim>\<open>sys.get_int_max_str_digits()\<close> decimal
  digits, 4300 unless the interpreter is set otherwise, it raises ValueError.
\<close>

definition int_max_str_digits :: nat where
  "int_max_str_digits = 4300"

fun py_str :: "pyval \<Rightarrow> exn + string" where
  "py_str PyNone = Inr ''None''"
| "py_str PyNaN = Inr ''nan''"
| "py_str (PyStr s) = Inr s"
| "py_str (PyInt i) =
     (if int_max_str_digits < length (dec (nat \<bar>i\<bar>)) then Inl ValueError
      else Inr (if i < 0 then CHR ''-'' # dec (nat (- i)) else dec (nat i)))"
| "py_str (PyFloat r) = Inr r"
| "py_str (PyBool b) = Inr (if b then ''True'' else ''False'')"

fun notna :: "pyval \<Rightarrow> bool" where
  "notna PyNone = False"
| "notna PyNaN = False"
| "notna _ = True"

text \<open>\<^verbatim>\<open>str.isspace\<close> on code points below 256, as \<^verbatim>\<open>str.strip()\<close> uses it.\<close>

definition isspace :: "char \<Rightarrow> bool" where
  "isspace c = (of_char c \<in> {9, 10, 11, 12, 13, 28, 29, 30, 31, 32, 133, 160 :: nat})"

definition strip :: "string \<Rightarrow> string" where
  "strip s = rev (dropWhile isspace (rev (dropWhile isspace s)))"

text \<open>\<^verbatim>\<open>s.split(sep)\<close> with an explicit one-character separator: empty parts are kept.\<close>

fun split :: "char \<Rightarrow> string \<Rightarrow> string list" where
  "split sep [] = [[]]"
| "split sep (c # cs) =
     (if c = sep then [] # split sep cs
      else (case split sep cs of p # ps \<Rightarrow> (c # p) # ps | [] \<Rightarrow> [[c]]))"

text \<open>\<^verbatim>\<open>s.zfill(width)\<close>: zeros go after a leading sign.\<close>

definition zfill :: "string \<Rightarrow> nat \<Rightarrow> string" where
  "zfill s width =
     (if width \<le> length s then s
      else (case s of
              [] \<Rightarrow> replicate width (CHR ''0'')
            | c # cs \<Rightarrow>
                if c = CHR ''+'' \<or> c = CHR ''-''
                then c # replicate (width - length s) (CHR ''0'') @ cs
                else replicate (width - length s) (CHR ''0'') @ s))"

definition startswith :: "string \<Rightarrow> string \<Rightarrow> bool" where
  "startswith s p = prefix p s"

text \<open>Dictionary subscription \<^verbatim>\<open>d[k]\<close>: a missing key raises.\<close>

definition getitem :: "('k \<times> 'v) list \<Rightarrow> 'k \<Rightarrow> exn + 'v" where
  "getitem d k = (case map_of d k of None \<Rightarrow> Inl KeyError | Some v \<Rightarrow> Inr v)"

section \<open>JSON\<close>

text \<open>
  A parsed JSON document. \<open>JObj\<close> is the dictionary \<^verbatim>\<open>json.loads\<close> returns, so its keys
  are distinct. Numbers are read by their type only.
\<close>

datatype json =
  JNull | JBool bool | JNum int | JStr string | JArr "json list"
  | JObj "(string \<times> json) list"

text \<open>
  \<^verbatim>\<open>k in v\<close> for a string \<open>k\<close>: key membership on a dictionary, element membership on a
  list, substring on a string, TypeError on anything else.
\<close>

fun py_in :: "string \<Rightarrow> json \<Rightarrow> exn + bool" where
  "py_in k (JObj kvs) = Inr (k \<in> fst ` set kvs)"
| "py_in k (JArr xs) = Inr (JStr k \<in> set xs)"
| "py_in k (JStr s) = Inr (sublist k s)"
| "py_in k JNull = Inl TypeError"
| "py_in k (JBool b) = Inl TypeError"
| "py_in k (JNum n) = Inl TypeError"


text \<open>
  The column values \<^verbatim>\<open>create_item\<close> sends: a plain string, or the dictionary
  \<^verbatim>\<open>{"date": d}\<close>. The payload \<^verbatim>\<open>monday_column_values\<close> is a dictionary in insertion
  order, keyed by column id.
\<close>

datatype column_value = Text string | Date string

type_synonym payload = "(string \<times> column_value) list"

definition hex4 :: "nat \<Rightarrow> string" where
  "hex4 n = map (\<lambda>k. ''0123456789abcdef'' ! ((n div 16 ^ k) mod 16)) [3, 2, 1, 0]"

text \<open>\<^verbatim>\<open>json.dumps\<close> of a string with \<^verbatim>\<open>ensure_ascii=True\<close>.\<close>

definition esc_char :: "char \<Rightarrow> string" where
  "esc_char c =
     (if c = CHR 0x22 then [CHR 0x5C, CHR 0x22]
      else if c = CHR 0x5C then [CHR 0x5C, CHR 0x5C]
      else if c = CHR 0x0A then [CHR 0x5C, CHR ''n'']
      else if c = CHR 0x0D then [CHR 0x5C, CHR ''r'']
      else if c = CHR 0x09 then [CHR 0x5C, CHR ''t'']
      else if c = CHR 0x08 then [CHR 0x5C, CHR ''b'']
      else if c = CHR 0x0C then [CHR 0x5C, CHR ''f'']
      else if 32 \<le> (of_char c :: nat) \<and> (of_char c :: nat) \<le> 126 then [c]
      else [CHR 0x5C, CHR ''u''] @ hex4 (of_char c))"

definition dumps_str :: "string \<Rightarrow> string" where
  "dumps_str s = [CHR 0x22] @ concat (map esc_char s) @ [CHR 0x22]"

fun dumps_value :: "column_value \<Rightarrow> string" where
  "dumps_value (Text s) = dumps_str s"
| "dumps_value (Date d) = ''{'' @ dumps_str ''date'' @ '': '' @ dumps_str d @ ''}''"

fun join :: "string \<Rightarrow> string list \<Rightarrow> string" where
  "join sep [] = []"
| "join sep [x] = x"
| "join sep (x # y # ys) = x @ sep @ join sep (y # ys)"

definition json_dumps :: "payload \<Rightarrow> string" where
  "json_dumps d =
     ''{'' @ join '', '' (map (\<lambda>(k, v). dumps_str k @ '': '' @ dumps_value v) d) @ ''}''"

text \<open>
  What a JSON text of that shape denotes: \<open>json_loads\<close> reads an object whose values are
  strings or \<^verbatim>\<open>{"date": string}\<close> back into the payload, and gives \<open>None\<close> for any
  other text. It is the yardstick for \<open>json_dumps\<close>, not part of the source.
\<close>

definition hexval :: "char \<Rightarrow> nat option" where
  "hexval c =
     (let n = (of_char c :: nat) in
      if 48 \<le> n \<and> n \<le> 57 then Some (n - 48)
      else if 97 \<le> n \<and> n \<le> 102 then Some (n - 87)
      else if 65 \<le> n \<and> n \<le> 70 then Some (n - 55)
      else None)"

definition unescape :: "char \<Rightarrow> char option" where
  "unescape e =
     (if e = CHR 0x22 then Some (CHR 0x22)
      else if e = CHR 0x5C then Some (CHR 0x5C)
      else if e = CHR ''/'' then Some (CHR ''/'')
      else if e = CHR ''n'' then Some (CHR 0x0A)
      else if e = CHR ''r'' then Some (CHR 0x0D)
      else if e = CHR ''t'' then Some (CHR 0x09)
      else if e = CHR ''b'' then Some (CHR 0x08)
      else if e = CHR ''f'' then Some (CHR 0x0C)
      else None)"

definition code_point :: "char \<Rightarrow> char \<Rightarrow> char \<Rightarrow> char \<Rightarrow> char option" where
  "code_point a b c d =
     (case (hexval a, hexval b, hexval c, hexval d) of
        (Some x3, Some x2, Some x1, Some x0) \<Rightarrow>
          if 4096 * x3 + 256 * x2 + 16 * x1 + x0 < 256
          then Some (char_of (4096 * x3 + 256 * x2 + 16 * x1 + x0)) else None
      | _ \<Rightarrow> None)"

text \<open>The characters of a string up to its closing quote, and the text after the quote.\<close>

fun loads_chars :: "string \<Rightarrow> (string \<times> string) option" where
  "loads_chars [] = None"
| "loads_chars [c] = (if c = CHR 0x22 then Some ([], []) else None)"
| "loads_chars (c # e # t) =
     (if c = CHR 0x22 then Some ([], e # t)
      else if c = CHR 0x5C then
        (if e = CHR ''u'' then
           (case t of
              a # b # c' # d # t' \<Rightarrow>
                (case code_point a b c' d of
                   None \<Rightarrow> None
                 | Some ch \<Rightarrow> map_option (\<lambda>(s, r). (ch # s, r)) (loads_chars t'))
            | _ \<Rightarrow> None)
         else (case unescape e of
                 None \<Rightarrow> None
               | Some ch \<Rightarrow> map_option (\<lambda>(s, r). (ch # s, r)) (loads_chars t)))
      else map_option (\<lambda>(s, r). (c # s, r)) (loads_chars (e # t)))"

definition loads_str :: "string \<Rightarrow> (string \<times> string) option" where
  "loads_str t = (case t of [] \<Rightarrow> None | c # cs \<Rightarrow> if c = CHR 0x22 then loads_chars cs else None)"

definition expect :: "string \<Rightarrow> string \<Rightarrow> string option" where
  "expect p t = (if prefix p t then Some (drop (length p) t) else None)"

definition loads_value :: "string \<Rightarrow> (column_value \<times> string) option" where
  "loads_value t =
     (case loads_str t of
        Some (s, r) \<Rightarrow> Some (Text s, r)
      | None \<Rightarrow>
          (case expect ''{'' t of
             None \<Rightarrow> None
           | Some t1 \<Rightarrow>
               (case loads_str t1 of
                  None \<Rightarrow> None
                | Some (k, t2) \<Rightarrow>
                    if k \<noteq> ''date'' then None
                    else (case expect '': '' t2 of
                            None \<Rightarrow> None
                          | Some t3 \<Rightarrow>
                              (case loads_str t3 of
                                 None \<Rightarrow> None
                               | Some (d, t4) \<Rightarrow>
                                   (case expect ''}'' t4 of
                                      None \<Rightarrow> None
                                    | Some t5 \<Rightarrow> Some (Date d, t5)))))))"

definition loads_member :: "string \<Rightarrow> ((string \<times> column_value) \<times> string) option" where
  "loads_member t =
     (case loads_str t of
        None \<Rightarrow> None
      | Some (k, t1) \<Rightarrow>
          (case expect '': '' t1 of
             None \<Rightarrow> None
           | Some t2 \<Rightarrow>
               (case loads_value t2 of
                  None \<Rightarrow> None
                | Some (v, t3) \<Rightarrow> Some ((k, v), t3))))"

text \<open>
  The members up to the closing brace, which ends the text. The first argument bounds
  the number of members read; the length of the text is enough.
\<close>

fun loads_members :: "nat \<Rightarrow> string \<Rightarrow> payload option" where
  "loads_members 0 t = None"
| "loads_members (Suc n) t =
     (case loads_member t of
        None \<Rightarrow> None
      | Some (m, t1) \<Rightarrow>
          if t1 = ''}'' then Some [m]
          else (case expect '', '' t1 of
                  None \<Rightarrow> None
                | Some t2 \<Rightarrow> map_option ((#) m) (loads_members n t2)))"

definition json_loads :: "string \<Rightarrow> payload option" where
  "json_loads t =
     (if t = ''{}'' then Some []
      else (case expect ''{'' t of
              None \<Rightarrow> None
            | Some t1 \<Rightarrow> loads_members (length t) t1))"

section \<open>The board and the transport\<close>

record col_info =
  col_id :: string
  col_index :: int

type_synonym column_map = "(string \<times> col_info) list"

record Board =
  name :: string
  fileName :: string
  apiKey :: "string option"
  apiUrl :: string
  headers :: "(string \<times> string option) list"
  board :: "string option"
  columns :: column_map

record create_vars =
  boardId :: "string option"
  itemName :: string
  columnValues :: string

record request =
  url :: string
  req_headers :: "(string \<times> string option) list"
  query :: string
  variables :: "create_vars option"

text \<open>
  What \<^verbatim>\<open>requests.post\<close> gives back: an exception, or a response with its status, its
  text, and the outcome of \<^verbatim>\<open>response.json()\<close> (\<open>None\<close> when the text is not JSON).
\<close>

record response =
  status_code :: int
  resp_text :: string
  body :: "json option"

datatype http_result = Raised exn | Response response

text \<open>
  The remote end answers a request knowing the requests sent before it. A call of
  \<^verbatim>\<open>requests.post\<close> appends the request to the log of requests sent.
\<close>

type_synonym remote = "request list \<Rightarrow> request \<Rightarrow> http_result"

definition post :: "remote \<Rightarrow> request \<Rightarrow> request list \<Rightarrow> http_result \<times> request list" where
  "post rem rq log = (rem log rq, log @ [rq])"

definition createItemMutation :: string where
  "createItemMutation = concat (map (\<lambda>l. l @ [CHR 0x0A])
     ['''',
      ''mutation ($boardId: ID!, $itemName: String!, $columnValues: JSON!) {'',
      ''    create_item ('',
      ''        board_id: $boardId,'',
      ''        item_name: $itemName,'',
      ''        column_values: $columnValues'',
      ''    ) {'',
      ''        id'',
      ''        name'',
      ''    }'',
      ''}''])"

section \<open>create_item\<close>

text \<open>
  Lines 243-260, the body of the \<^verbatim>\<open>try\<close> for a date column: the date string stored
  under \<^verbatim>\<open>"date"\<close>, or \<open>None\<close> when the branch stores nothing, or the exception of
  \<^verbatim>\<open>str(value)\<close>. The second \<^verbatim>\<open>str(value)\<close>, of line 244, gives what the first gave.
\<close>

definition date_value :: "pyval \<Rightarrow> exn + string option" where
  "date_value v =
     (if notna v then
        (case py_str v of
           Inl e \<Rightarrow> Inl e
         | Inr s \<Rightarrow>
             if strip s \<noteq> [] then
               let date_str = strip s;
                   date_str = (if CHR '' '' \<in> set date_str then hd (split (CHR '' '') date_str)
                               else date_str)
               in if CHR ''/'' \<in> set date_str then
                    (case split (CHR ''/'') date_str of
                       [month, day, year] \<Rightarrow>
                         Inr (Some (year @ ''-'' @ zfill month 2 @ ''-'' @ zfill day 2))
                     | _ \<Rightarrow> Inr None)
                  else Inr (Some date_str)
             else Inr None)
      else Inr None)"

text \<open>
  One turn of the loop of lines 236-266. The handler of line 261 catches what the date
  branch raises and goes on to the next column; \<^verbatim>\<open>str(value)\<close> of line 266 is under no
  handler.
\<close>

definition convert_column ::
  "column_map \<Rightarrow> string \<times> pyval \<Rightarrow> payload \<Rightarrow> exn + payload" where
  "convert_column cols item monday_column_values =
     (case item of (column_title, v) \<Rightarrow>
        if column_title \<in> fst ` set cols then
          (case getitem cols column_title of
             Inl e \<Rightarrow> Inl e
           | Inr info \<Rightarrow>
               let column_id = col_id info in
               if startswith column_id ''date'' then
                 (case date_value v of
                    Inl e \<Rightarrow> Inr monday_column_values
                  | Inr (Some d) \<Rightarrow> Inr (AList.update column_id (Date d) monday_column_values)
                  | Inr None \<Rightarrow> Inr monday_column_values)
               else (case py_str v of
                       Inl e \<Rightarrow> Inl e
                     | Inr s \<Rightarrow> Inr (AList.update column_id (Text s) monday_column_values)))
        else Inr monday_column_values)"

fun convert_columns ::
  "column_map \<Rightarrow> (string \<times> pyval) list \<Rightarrow> payload \<Rightarrow> exn + payload" where
  "convert_columns cols [] monday_column_values = Inr monday_column_values"
| "convert_columns cols (item # items) monday_column_values =
     (case convert_column cols item monday_column_values of
        Inl e \<Rightarrow> Inl e
      | Inr monday_column_values' \<Rightarrow> convert_columns cols items monday_column_values')"

text \<open>Lines 269-278: the request \<^verbatim>\<open>create_item\<close> posts.\<close>

definition create_request :: "Board \<Rightarrow> string \<Rightarrow> payload \<Rightarrow> request" where
  "create_request self item_name monday_column_values =
     \<lparr>url = apiUrl self, req_headers = headers self, query = createItemMutation,
      variables = Some \<lparr>boardId = board self, itemName = item_name,
                        columnValues = json_dumps monday_column_values\<rparr>\<rparr>"

text \<open>Lines 281-296, the body of the \<^verbatim>\<open>try\<close>, after the request came back.\<close>

definition check_response :: "http_result \<Rightarrow> exn + json option" where
  "check_response r =
     (case r of
        Raised e \<Rightarrow> Inl e
      | Response resp \<Rightarrow>
          if status_code resp \<noteq> 200 then Inr None
          else (case body resp of
                  None \<Rightarrow> Inl JSONDecodeError
                | Some response_data \<Rightarrow>
                    (case py_in ''errors'' response_data of
                       Inl e \<Rightarrow> Inl e
                     | Inr True \<Rightarrow> Inr None
                     | Inr False \<Rightarrow> Inr (Some response_data))))"

text \<open>Lines 298-307: each of the three handlers returns \<^verbatim>\<open>None\<close>.\<close>

fun handle :: "exn \<Rightarrow> json option" where
  "handle RequestException = None"
| "handle JSONDecodeError = None"
| "handle _ = None"

definition create_item ::
  "Board \<Rightarrow> remote \<Rightarrow> request list \<Rightarrow> string \<Rightarrow> (string \<times> pyval) list option
     \<Rightarrow> (exn + json option) \<times> request list" where
  "create_item self rem log item_name column_values =
     (case convert_columns (columns self)
             (case column_values of None \<Rightarrow> [] | Some cv \<Rightarrow> cv) [] of
        Inl e \<Rightarrow> (Inl e, log)
      | Inr monday_column_values \<Rightarrow>
          (case post rem (create_request self item_name monday_column_values) log of
             (r, log') \<Rightarrow>
               (case check_response r of
                  Inr res \<Rightarrow> (Inr res, log')
                | Inl e \<Rightarrow> (Inr (handle e), log'))))"

section \<open>update_column_value\<close>

text \<open>How an f-string renders an attribute that may be \<^verbatim>\<open>None\<close>.\<close>

fun fmt :: "string option \<Rightarrow> string" where
  "fmt None = ''None''"
| "fmt (Some s) = s"

text \<open>Line 325: the mutation text, the arguments put in as they are.\<close>

definition update_mutation :: "string \<Rightarrow> string option \<Rightarrow> string \<Rightarrow> string \<Rightarrow> string" where
  "update_mutation item_id board_id column_id v =
     ''mutation { change_simple_column_value(item_id: '' @ item_id @ '', board_id: ''
       @ fmt board_id @ '', column_id: '' @ column_id @ '', value: '' @ [CHR 0x22] @ v
       @ [CHR 0x22] @ '') { id } }''"

definition update_request :: "Board \<Rightarrow> string \<Rightarrow> string \<Rightarrow> string \<Rightarrow> request" where
  "update_request self item_id column_id v =
     \<lparr>url = apiUrl self, req_headers = headers self,
      query = update_mutation item_id (board self) column_id v, variables = None\<rparr>"

text \<open>
  Lines 321-329. Nothing is caught here: what \<^verbatim>\<open>requests.post\<close> or
  \<^verbatim>\<open>response.json()\<close> raises reaches the caller.
\<close>

definition update_column_value ::
  "Board \<Rightarrow> remote \<Rightarrow> request list \<Rightarrow> string \<Rightarrow> string \<Rightarrow> string
     \<Rightarrow> (exn + json) \<times> request list" where
  "update_column_value self rem log item_id column_title v =
     (if column_title \<notin> fst ` set (columns self) then (Inl ValueError, log)
      else (case getitem (columns self) column_title of
              Inl e \<Rightarrow> (Inl e, log)
            | Inr info \<Rightarrow>
                (case post rem (update_request self item_id (col_id info) v) log of
                   (Raised e, log') \<Rightarrow> (Inl e, log')
                 | (Response resp, log') \<Rightarrow>
                     (case body resp of
                        None \<Rightarrow> (Inl JSONDecodeError, log')
                      | Some response_data \<Rightarrow> (Inr response_data, log')))))"

section \<open>upload_excel_data\<close>

text \<open>
  A row as \<^verbatim>\<open>df.iterrows()\<close> yields it: the cells in column order, each with its column
  title. Reading the file and the iteration are pandas' work and outside the embedding;
  \<^verbatim>\<open>iterrows\<close> brings the cells of the frame to one common type, so in a frame of
  integer and float columns an integer cell arrives as a float, and 5 is named
  \<^verbatim>\<open>5.0\<close>. The frame has its default integer index.
\<close>

type_synonym row = "(string \<times> pyval) list"

text \<open>\<^verbatim>\<open>row.iloc[0]\<close>.\<close>

definition iloc0 :: "row \<Rightarrow> exn + pyval" where
  "iloc0 r = (case r of [] \<Rightarrow> Inl IndexError | (t, v) # rest \<Rightarrow> Inr v)"

text \<open>Lines 372-375. An empty \<^verbatim>\<open>name_column\<close> is falsy.\<close>

definition item_name_of :: "string option \<Rightarrow> row \<Rightarrow> exn + string" where
  "item_name_of name_column r =
     (case name_column of
        Some nc \<Rightarrow>
          if nc \<noteq> [] \<and> nc \<in> fst ` set r then
            (case getitem r nc of Inl e \<Rightarrow> Inl e | Inr v \<Rightarrow> py_str v)
          else (case iloc0 r of Inl e \<Rightarrow> Inl e | Inr v \<Rightarrow> py_str v)
      | None \<Rightarrow> (case iloc0 r of Inl e \<Rightarrow> Inl e | Inr v \<Rightarrow> py_str v))"

text \<open>Lines 378-381.\<close>

definition row_column_values :: "string option \<Rightarrow> row \<Rightarrow> (string \<times> pyval) list" where
  "row_column_values name_column r =
     fold (\<lambda>(column_name, v) column_values.
             if Some column_name \<noteq> name_column \<and> notna v
             then AList.update column_name v column_values else column_values) r []"





section \<open>importBoardColumns\<close>

text \<open>A column record \<^verbatim>\<open>{id, title}\<close> of the schema response.\<close>

record column =
  id' :: string
  title :: string

text \<open>
  Lines 85-88 as a value: the exception raised by the request, by \<^verbatim>\<open>.json()\<close> or by a
  subscript of \<^verbatim>\<open>columns['data']['boards'][0]['columns']\<close>, or the list of column records
  found there. The remote end sees the number of schema queries made before, the API key
  and the board id.
\<close>

type_synonym schema_remote = "nat \<Rightarrow> string option \<Rightarrow> string option \<Rightarrow> exn + column list"

text \<open>The loop of lines 89-92: \<open>x\<close> is the running index.\<close>

fun build_columns :: "column list \<Rightarrow> int \<Rightarrow> column_map \<Rightarrow> column_map" where
  "build_columns [] x columnDict = columnDict"
| "build_columns (c # boardColumns) x columnDict =
     build_columns boardColumns (x + 1)
       (AList.update (title c) \<lparr>col_id = id' c, col_index = x\<rparr> columnDict)"

definition importBoardColumns :: "exn + column list \<Rightarrow> exn + column_map" where
  "importBoardColumns reply =
     (case reply of Inl e \<Rightarrow> Inl e | Inr boardColumns \<Rightarrow> Inr (build_columns boardColumns (- 1) []))"

section \<open>boardGen and Board.__init__\<close>

record properties =
  p_apiKey :: "string option"
  p_apiUrl :: string
  p_headers :: "(string \<times> string option) list"
  p_board :: "string option"

record board_entry =
  entry_name :: string
  entry_id :: "string option"
  entry_properties :: properties
  entry_columns :: column_map

text \<open>
  The dictionary under \<^verbatim>\<open>'Boards'\<close>, in insertion order. A key is a string or
  \<^verbatim>\<open>None\<close>: the keys read from a file are strings, the key written by line 135 or 164
  is the value of \<^verbatim>\<open>boardID\<close> at that point.
\<close>

type_synonym boards = "(string option \<times> board_entry) list"

text \<open>
  What reading the file gives: no file, text that is not JSON, or a dictionary whose
  \<^verbatim>\<open>'Boards'\<close> entry, when there is one, holds entries of the shape boardGen writes.
\<close>

datatype file_content = Missing | NotJson | Loaded "(string \<times> board_entry) list option"

text \<open>
  The variables of \<^verbatim>\<open>boardGen\<close> and the console: \<open>fileDict\<close> is the value under
  \<^verbatim>\<open>'Boards'\<close> (\<open>None\<close> while the key is absent), \<open>stdin\<close> the lines still to be read,
  \<open>prompts\<close> the prompts shown, \<open>queries\<close> the number of schema queries made and
  \<open>written\<close> what was last written to the file.
\<close>

record gen_state =
  v_boardID :: "string option"
  v_apiKey :: "string option"
  fileDict :: "boards option"
  stdin :: "string list"
  prompts :: "string list"
  queries :: nat
  written :: "boards option option"

text \<open>\<^verbatim>\<open>str(input(prompt))\<close>: at the end of the input it raises EOFError.\<close>

definition input :: "string \<Rightarrow> gen_state \<Rightarrow> (exn + string) \<times> gen_state" where
  "input prompt s =
     (case stdin s of
        [] \<Rightarrow> (Inl EOFError, s\<lparr>prompts := prompts s @ [prompt]\<rparr>)
      | l # ls \<Rightarrow> (Inr l, s\<lparr>stdin := ls, prompts := prompts s @ [prompt]\<rparr>))"

text \<open>Lines 129-132, and again lines 155-158. The first component is the exception raised, if any.\<close>

definition prompt_missing :: "gen_state \<Rightarrow> exn option \<times> gen_state" where
  "prompt_missing s =
     (case (if v_apiKey s = None then
              (case input ''API Key: '' s of
                 (Inl e, s') \<Rightarrow> (Some e, s')
               | (Inr l, s') \<Rightarrow> (None, s'\<lparr>v_apiKey := Some l\<rparr>))
            else (None, s)) of
        (Some e, s1) \<Rightarrow> (Some e, s1)
      | (None, s1) \<Rightarrow>
          if v_boardID s1 = None then
            (case input ''Board ID: '' s1 of
               (Inl e, s2) \<Rightarrow> (Some e, s2)
             | (Inr l, s2) \<Rightarrow> (None, s2\<lparr>v_boardID := Some l\<rparr>))
          else (None, s1))"

text \<open>The loop of lines 122-132 over the entries of the file.\<close>

fun scan_boards ::
  "string \<Rightarrow> (string option \<times> board_entry) list \<Rightarrow> gen_state \<Rightarrow> exn option \<times> gen_state" where
  "scan_boards nm [] s = (None, s)"
| "scan_boards nm ((k, e) # rest) s =
     (if entry_name e = nm then
        scan_boards nm rest
          (s\<lparr>v_boardID := p_board (entry_properties e),
             v_apiKey := p_apiKey (entry_properties e)\<rparr>)
      else (case prompt_missing s of
              (Some x, s') \<Rightarrow> (Some x, s')
            | (None, s') \<Rightarrow> scan_boards nm rest s'))"

definition new_entry :: "string \<Rightarrow> string option \<Rightarrow> string option \<Rightarrow> column_map \<Rightarrow> board_entry" where
  "new_entry nm bid key cols =
     \<lparr>entry_name = nm, entry_id = bid,
      entry_properties =
        \<lparr>p_apiKey = key, p_apiUrl = ''https://api.monday.com/v2'',
         p_headers = [(''Authorization'', key)], p_board = bid\<rparr>,
      entry_columns = cols\<rparr>"

text \<open>
  Lines 135-145, and again lines 164-174: the right-hand side, with its schema query, is
  evaluated before \<^verbatim>\<open>fileDict['Boards']\<close> is.
\<close>

definition upsert :: "schema_remote \<Rightarrow> string \<Rightarrow> gen_state \<Rightarrow> exn option \<times> gen_state" where
  "upsert fetch nm s =
     (case importBoardColumns (fetch (queries s) (v_apiKey s) (v_boardID s)) of
        Inl e \<Rightarrow> (Some e, s\<lparr>queries := queries s + 1\<rparr>)
      | Inr cols \<Rightarrow>
          (case fileDict s of
             None \<Rightarrow> (Some KeyError, s\<lparr>queries := queries s + 1\<rparr>)
           | Some bs \<Rightarrow>
               (None, s\<lparr>queries := queries s + 1,
                        fileDict := Some (AList.update (v_boardID s)
                                      (new_entry nm (v_boardID s) (v_apiKey s) cols) bs)\<rparr>)))"

text \<open>Lines 117-149, the body of the \<^verbatim>\<open>try\<close>. Writing the file does not fail.\<close>

definition try_block ::
  "schema_remote \<Rightarrow> string \<Rightarrow> file_content \<Rightarrow> gen_state \<Rightarrow> exn option \<times> gen_state" where
  "try_block fetch nm file s =
     (case file of
        Missing \<Rightarrow> (Some FileNotFoundError, s)
      | NotJson \<Rightarrow> (Some JSONDecodeError, s)
      | Loaded data \<Rightarrow>
          (case data of
             None \<Rightarrow> (Some KeyError, s\<lparr>fileDict := None\<rparr>)
           | Some bs \<Rightarrow>
               (case scan_boards nm (map (\<lambda>(k, e). (Some k, e)) bs)
                       (s\<lparr>fileDict := Some (map (\<lambda>(k, e). (Some k, e)) bs)\<rparr>) of
                  (Some e, s') \<Rightarrow> (Some e, s')
                | (None, s') \<Rightarrow>
                    (case upsert fetch nm s' of
                       (Some e, s'') \<Rightarrow> (Some e, s'')
                     | (None, s'') \<Rightarrow> (None, s''\<lparr>written := Some (fileDict s'')\<rparr>)))))"

text \<open>Lines 153-179, the handler: it catches every exception of the body.\<close>

definition except_block :: "schema_remote \<Rightarrow> string \<Rightarrow> gen_state \<Rightarrow> exn option \<times> gen_state" where
  "except_block fetch nm s =
     (case prompt_missing s of
        (Some e, s1) \<Rightarrow> (Some e, s1)
      | (None, s1) \<Rightarrow>
          (case upsert fetch nm (if fileDict s1 = None then s1\<lparr>fileDict := Some []\<rparr> else s1) of
             (Some e, s2) \<Rightarrow> (Some e, s2)
           | (None, s2) \<Rightarrow> (None, s2\<lparr>written := Some (fileDict s2)\<rparr>)))"

definition boardGen ::
  "schema_remote \<Rightarrow> file_content \<Rightarrow> string list \<Rightarrow> string \<Rightarrow> string option \<Rightarrow> string option
     \<Rightarrow> (exn + boards option) \<times> gen_state" where
  "boardGen fetch file lines nm boardID key =
     (case try_block fetch nm file
             \<lparr>v_boardID = boardID, v_apiKey = key, fileDict = None, stdin = lines,
              prompts = [], queries = 0, written = None\<rparr> of
        (None, s) \<Rightarrow> (Inr (fileDict s), s)
      | (Some e, s) \<Rightarrow>
          (case except_block fetch nm s of
             (Some e', s') \<Rightarrow> (Inl e', s')
           | (None, s') \<Rightarrow> (Inr (fileDict s'), s')))"

text \<open>Lines 209-218. The subscript is the \<^verbatim>\<open>boardID\<close> the caller passed.\<close>

definition Board_init ::
  "schema_remote \<Rightarrow> file_content \<Rightarrow> string list \<Rightarrow> string \<Rightarrow> string option \<Rightarrow> string option
     \<Rightarrow> (exn + Board) \<times> gen_state" where
  "Board_init fetch file lines nm boardID key =
     (case boardGen fetch file lines nm boardID key of
        (Inl e, s) \<Rightarrow> (Inl e, s)
      | (Inr fd, s) \<Rightarrow>
          (case fd of
             None \<Rightarrow> (Inl KeyError, s)
           | Some bs \<Rightarrow>
               (case getitem bs boardID of
                  Inl e \<Rightarrow> (Inl e, s)
                | Inr entry \<Rightarrow>
                    (Inr \<lparr>name = nm,
                          fileName = ''key.json'',
                          apiKey = p_apiKey (entry_properties entry),
                          apiUrl = p_apiUrl (entry_properties entry),
                          headers = p_headers (entry_properties entry),
                          board = p_board (entry_properties entry),
                          columns = entry_columns entry\<rparr>, s))))"

text \<open>
  The files from which \<^verbatim>\<open>boardGen\<close> always ends with a board id: the file is absent or
  unreadable or has no \<^verbatim>\<open>'Boards'\<close>, or its \<^verbatim>\<open>'Boards'\<close> has at least one entry and
  every entry stores a board id.
\<close>

definition stores_board_ids :: "file_content \<Rightarrow> bool" where
  "stores_board_ids fc =
     (case fc of
        Loaded (Some stored) \<Rightarrow>
          stored \<noteq> [] \<and> (\<forall>(k, e) \<in> set stored. p_board (entry_properties e) \<noteq> None)
      | _ \<Rightarrow> True)"

section \<open>The resolved column values as the specification words them\<close>

text \<open>A cell, or a column value, whose \<^verbatim>\<open>str\<close> does not raise.\<close>

definition renders :: "pyval \<Rightarrow> bool" where
  "renders v = (case py_str v of Inl e \<Rightarrow> False | Inr s \<Rightarrow> True)"

text \<open>
  In the specification's words each title is resolved against the column map, a title
  with no match is skipped, and the value of a column that is not a date column is sent
  as its string under the column id. \<open>known_values\<close> are the column values whose title
  the board has, \<open>column_id_of\<close> the id a title resolves to, and \<open>resolved_map\<close> the
  map that results. \<open>plain_values\<close> says that the titles resolve to different columns,
  none of them a date column, and that every value renders.
\<close>

definition known_values :: "column_map \<Rightarrow> (string \<times> pyval) list \<Rightarrow> (string \<times> pyval) list" where
  "known_values cols c = filter (\<lambda>(t, v). t \<in> fst ` set cols) c"

definition column_id_of :: "column_map \<Rightarrow> string \<Rightarrow> string" where
  "column_id_of cols t = (case map_of cols t of None \<Rightarrow> [] | Some info \<Rightarrow> col_id info)"

definition resolved_map :: "column_map \<Rightarrow> (string \<times> pyval) list \<Rightarrow> payload" where
  "resolved_map cols c =
     map (\<lambda>(t, v). (column_id_of cols t,
                    Text (case py_str v of Inl e \<Rightarrow> [] | Inr s \<Rightarrow> s)))
       (known_values cols c)"

definition plain_values :: "column_map \<Rightarrow> (string \<times> pyval) list \<Rightarrow> bool" where
  "plain_values cols c =
     (distinct (map (\<lambda>(t, v). column_id_of cols t) (known_values cols c))
      \<and> (\<forall>(t, v) \<in> set (known_values cols c).
            \<not> startswith (column_id_of cols t) ''date'' \<and> renders v))"

section \<open>The import as the specification words it\<close>





section \<open>Example data\<close>

text \<open>A board with a date column, and the reply of the remote end to a created item.\<close>

definition demo_board :: Board where
  "demo_board =
     \<lparr>name = ''Tasks'', fileName = ''key.json'', apiKey = Some ''k'', apiUrl = ''https://api.monday.com/v2'',
      headers = [(''Authorization'', Some ''k'')], board = Some ''42'',
      columns = [(''Name'', \<lparr>col_id = ''name'', col_index = - 1\<rparr>),
                 (''Due'', \<lparr>col_id = ''date4'', col_index = 0\<rparr>),
                 (''Notes'', \<lparr>col_id = ''text'', col_index = 1\<rparr>)]\<rparr>"

definition demo_created :: "string \<Rightarrow> json" where
  "demo_created i =
     JObj [(''data'', JObj [(''create_item'', JObj [(''id'', JStr i), (''name'', JStr ''x'')])])]"

definition demo_reply :: "int \<Rightarrow> string \<Rightarrow> http_result" where
  "demo_reply status i =
     Response \<lparr>status_code = status, resp_text = [], body = Some (demo_created i)\<rparr>"

text \<open>
  Column values for a date column, a text column and a title the board does not have,
  and the JSON text \<^verbatim>\<open>json.dumps\<close> gives for the map they resolve to.
\<close>

definition demo_values :: "(string \<times> pyval) list" where
  "demo_values =
     [(''Due'', PyStr ''04/30/2025 08:39''), (''Notes'', PyStr ''hello''),
      (''Owner'', PyStr ''x'')]"

definition demo_blob :: string where
  \<open>demo_blob = ''{"date4": {"date": "2025-04-30"}, "text": "hello"}''\<close>




text \<open>A schema response: the name column first, then two more columns.\<close>

definition demo_schema :: "column list" where
  "demo_schema =
     [\<lparr>id' = ''name'', title = ''Name''\<rparr>, \<lparr>id' = ''date4'', title = ''Due''\<rparr>,
      \<lparr>id' = ''text'', title = ''Notes''\<rparr>]"

text \<open>A configuration file with two boards.\<close>

definition demo_file :: file_content where
  "demo_file =
     Loaded (Some [(''111'', new_entry ''Alpha'' (Some ''111'') (Some ''kA'') []),
                   (''222'', new_entry ''Beta'' (Some ''222'') (Some ''kB'') [])])"

section \<open>Strings and dates\<close>

lemma split_nonempty: "split sep s \<noteq> []"
  by (induction s) (auto split: list.splits)

lemma split_no_sep: "sep \<notin> set a \<Longrightarrow> split sep a = [a]"
  by (induction a) auto

lemma split_append_sep: "sep \<notin> set a \<Longrightarrow> split sep (a @ sep # r) = a # split sep r"
  by (induction a) (auto split: list.splits simp: split_nonempty)

lemma dropWhile_hd: "s \<noteq> [] \<Longrightarrow> \<not> P (hd s) \<Longrightarrow> dropWhile P s = s"
  by (cases s) auto

lemma strip_id:
  assumes "s \<noteq> []" and "\<not> isspace (hd s)" and "\<not> isspace (last s)"
  shows "strip s = s"
proof -
  have "dropWhile isspace s = s" using assms by (simp add: dropWhile_hd)
  moreover have "dropWhile isspace (rev s) = rev s"
    using assms by (simp add: dropWhile_hd hd_rev)
  ultimately show ?thesis by (simp add: strip_def)
qed

lemma isspace_space: "isspace (CHR '' '')"
  by (simp add: isspace_def)

lemma date_value_mdy:
  assumes nosep: "\<forall>c \<in> set (m @ d @ y). \<not> isspace c \<and> c \<noteq> CHR ''/''"
    and tail: "tail = [] \<or> (hd tail = CHR '' '' \<and> \<not> isspace (last tail))"
  shows "date_value (PyStr (m @ ''/'' @ d @ ''/'' @ y @ tail))
           = Inr (Some (y @ ''-'' @ zfill m 2 @ ''-'' @ zfill d 2))"
proof -
  define ds where "ds = m @ CHR ''/'' # d @ CHR ''/'' # y"
  have slash: "\<not> isspace (CHR ''/'')" by (simp add: isspace_def)
  have ds_nospace: "\<forall>c \<in> set ds. \<not> isspace c"
    using nosep slash by (auto simp: ds_def)
  have ds_ne: "ds \<noteq> []" by (simp add: ds_def)
  have sp: "CHR '' '' \<notin> set ds"
    using ds_nospace isspace_space by blast
  have nm: "CHR ''/'' \<notin> set m" and nd: "CHR ''/'' \<notin> set d" and ny: "CHR ''/'' \<notin> set y"
    using nosep by auto
  have parts: "split (CHR ''/'') ds = [m, d, y]"
    by (simp add: ds_def split_append_sep [OF nm] split_append_sep [OF nd] split_no_sep [OF ny])
  have sl: "CHR ''/'' \<in> set ds" by (simp add: ds_def)
  have hd_ds: "\<not> isspace (hd ds)" using ds_nospace ds_ne by simp
  have last_ds: "\<not> isspace (last ds)" using ds_nospace ds_ne by simp
  have s_eq: "m @ ''/'' @ d @ ''/'' @ y @ tail = ds @ tail" by (simp add: ds_def)
  have st: "strip (ds @ tail) = ds @ tail"
  proof (rule strip_id)
    show "ds @ tail \<noteq> []" using ds_ne by simp
    show "\<not> isspace (hd (ds @ tail))" using hd_ds ds_ne by simp
    show "\<not> isspace (last (ds @ tail))"
      using tail last_ds by (cases "tail = []") auto
  qed
  have part: "(if CHR '' '' \<in> set (ds @ tail) then hd (split (CHR '' '') (ds @ tail)) else ds @ tail) = ds"
  proof (cases "tail = []")
    case True
    then show ?thesis using sp by simp
  next
    case False
    with tail obtain r where r: "tail = CHR '' '' # r" by (cases tail) auto
    then show ?thesis using sp by (simp add: split_append_sep)
  qed
  have ne: "ds @ tail \<noteq> []" using ds_ne by simp
  show ?thesis
    unfolding s_eq date_value_def
    by (simp only: py_str.simps notna.simps if_True sum.case st ne not_False_eq_True
        part Let_def sl parts list.case)
qed





section \<open>The payload of create_item\<close>

lemma getitem_member:
  assumes "k \<in> fst ` set d"
  obtains v where "getitem d k = Inr v" and "map_of d k = Some v"
proof -
  from assms have "map_of d k \<noteq> None"
    by (simp add: map_of_eq_None_iff)
  then obtain v where "map_of d k = Some v" by blast
  then have "getitem d k = Inr v" by (simp add: getitem_def)
  with \<open>map_of d k = Some v\<close> show thesis using that by blast
qed




lemma handle_None: "handle e = None"
  by (cases e) simp_all

lemma create_item_cases:
  "create_item self rem log nm cv =
     (case convert_columns (columns self) (case cv of None \<Rightarrow> [] | Some c \<Rightarrow> c) [] of
        Inl e \<Rightarrow> (Inl e, log)
      | Inr mcv \<Rightarrow>
          (Inr (case check_response (rem log (create_request self nm mcv)) of
                  Inr res \<Rightarrow> res | Inl e \<Rightarrow> None),
           log @ [create_request self nm mcv]))"
proof (cases "convert_columns (columns self) (case cv of None \<Rightarrow> [] | Some c \<Rightarrow> c) []")
  case (Inl e)
  then show ?thesis by (simp add: create_item_def)
next
  case (Inr mcv)
  show ?thesis
    unfolding create_item_def Inr post_def
    by (cases "check_response (rem log (create_request self nm mcv))")
       (simp_all add: handle_None)
qed

lemma convert_date_column:
  assumes "map_of cols t = Some info" and "startswith (col_id info) ''date''"
  shows "convert_columns cols [(t, v)] mcv =
           Inr (case date_value v of
                  Inr (Some dv) \<Rightarrow> AList.update (col_id info) (Date dv) mcv
                | _ \<Rightarrow> mcv)"
proof -
  have mem: "t \<in> fst ` set cols"
    using assms(1) by (metis map_of_eq_None_iff option.distinct(1))
  have g: "getitem cols t = Inr info" using assms(1) by (simp add: getitem_def)
  show ?thesis
  proof (cases "date_value v")
    case (Inl e)
    then show ?thesis by (simp add: convert_column_def mem g assms(2))
  next
    case (Inr r)
    then show ?thesis by (cases r) (simp_all add: convert_column_def mem g assms(2))
  qed
qed

text \<open>
  Claim C1, as the code has it. For a column whose id starts with \<^verbatim>\<open>date\<close>, a cell
  \<^verbatim>\<open>m/d/y\<close>, alone or followed by a space and a time, is sent as
  \<^verbatim>\<open>{"date": "y-mm-dd"}\<close> with month and day zero-filled to two characters; the three
  parts are not validated, so \<^verbatim>\<open>13/45/2025\<close> is sent as \<^verbatim>\<open>2025-13-45\<close>. The request
  of the row is posted with that payload.
\<close>

theorem date_coercion_reformats_without_validation:
  assumes "map_of (columns self) t = Some info" and "startswith (col_id info) ''date''"
    and "\<forall>c \<in> set (m @ d @ y). \<not> isspace c \<and> c \<noteq> CHR ''/''"
    and "tail = [] \<or> (hd tail = CHR '' '' \<and> \<not> isspace (last tail))"
  shows "convert_columns (columns self) [(t, PyStr (m @ ''/'' @ d @ ''/'' @ y @ tail))] []
           = Inr [(col_id info, Date (y @ ''-'' @ zfill m 2 @ ''-'' @ zfill d 2))]
       \<and> snd (create_item self rem log nm (Some [(t, PyStr (m @ ''/'' @ d @ ''/'' @ y @ tail))]))
           = log @ [create_request self nm
                      [(col_id info, Date (y @ ''-'' @ zfill m 2 @ ''-'' @ zfill d 2))]]"
proof -
  have dv: "date_value (PyStr (m @ ''/'' @ d @ ''/'' @ y @ tail))
              = Inr (Some (y @ ''-'' @ zfill m 2 @ ''-'' @ zfill d 2))"
    using assms(3,4) by (rule date_value_mdy)
  have cc: "convert_columns (columns self) [(t, PyStr (m @ ''/'' @ d @ ''/'' @ y @ tail))] []
           = Inr [(col_id info, Date (y @ ''-'' @ zfill m 2 @ ''-'' @ zfill d 2))]"
    by (simp only: convert_date_column [OF assms(1,2)] dv option.case sum.case
        AList.update.simps)
  have "snd (create_item self rem log nm (Some [(t, PyStr (m @ ''/'' @ d @ ''/'' @ y @ tail))]))
           = log @ [create_request self nm
                      [(col_id info, Date (y @ ''-'' @ zfill m 2 @ ''-'' @ zfill d 2))]]"
    by (simp only: create_item_cases option.case cc sum.case snd_conv)
  with cc show ?thesis by (rule conjI)
qed

theorem date_coercion_reformats_without_validation_witness:
  "convert_columns (columns demo_board) [(''Due'', PyStr ''04/30/2025 08:39'')] []
     = Inr [(''date4'', Date ''2025-04-30'')]
   \<and> convert_columns (columns demo_board) [(''Due'', PyStr ''13/45/2025'')] []
     = Inr [(''date4'', Date ''2025-13-45'')]"
proof -
  have c: "map_of (columns demo_board) ''Due'' = Some \<lparr>col_id = ''date4'', col_index = 0\<rparr>"
    by (simp add: demo_board_def)
  have p: "startswith (col_id \<lparr>col_id = ''date4'', col_index = 0\<rparr>) ''date''"
    by (simp add: startswith_def)
  have a1: "\<forall>c \<in> set (''04'' @ ''30'' @ ''2025''). \<not> isspace c \<and> c \<noteq> CHR ''/''"
    by (simp add: isspace_def)
  have a2: "\<forall>c \<in> set (''13'' @ ''45'' @ ''2025''). \<not> isspace c \<and> c \<noteq> CHR ''/''"
    by (simp add: isspace_def)
  have t1: "'' 08:39'' = [] \<or> (hd '' 08:39'' = CHR '' '' \<and> \<not> isspace (last '' 08:39''))"
    by (simp add: isspace_def)
  have t2: "([]::string) = [] \<or> (hd [] = CHR '' '' \<and> \<not> isspace (last []))"
    by simp
  from date_coercion_reformats_without_validation [OF c p a1 t1]
  have r1: "convert_columns (columns demo_board) [(''Due'', PyStr ''04/30/2025 08:39'')] []
     = Inr [(''date4'', Date ''2025-04-30'')]"
    by (simp add: zfill_def)
  from date_coercion_reformats_without_validation [OF c p a2 t2]
  have r2: "convert_columns (columns demo_board) [(''Due'', PyStr ''13/45/2025'')] []
     = Inr [(''date4'', Date ''2025-13-45'')]"
    by (simp add: zfill_def)
  from r1 r2 show ?thesis by (rule conjI)
qed

text \<open>The cell \<^verbatim>\<open>13/45/2025\<close> of a date column is not left out of the payload.\<close>

lemma date_value_invalid: "date_value (PyStr ''13/45/2025'') = Inr (Some ''2025-13-45'')"
  by (simp add: date_value_def strip_def isspace_def zfill_def)

theorem invalid_date_kept_counterexample:
  "convert_columns (columns demo_board) [(''Due'', PyStr ''13/45/2025'')] []
     = Inr [(''date4'', Date ''2025-13-45'')]"
  by (simp add: demo_board_def convert_column_def getitem_def startswith_def date_value_invalid)

section \<open>The result of create_item\<close>

lemma check_response_cases:
  "(case check_response r of Inr res \<Rightarrow> res | Inl e \<Rightarrow> None) =
     (case r of
        Raised e \<Rightarrow> None
      | Response resp \<Rightarrow>
          if status_code resp = 200 \<and> (\<exists>d. body resp = Some d \<and> py_in ''errors'' d = Inr False)
          then body resp else None)"
proof (cases r)
  case (Raised e)
  then show ?thesis by (simp add: check_response_def)
next
  case (Response resp)
  show ?thesis
  proof (cases "body resp")
    case None
    with Response show ?thesis by (simp add: check_response_def)
  next
    case (Some d)
    show ?thesis
    proof (cases "py_in ''errors'' d")
      case (Inl e)
      with Some Response show ?thesis by (simp add: check_response_def)
    next
      case (Inr b)
      with Some Response show ?thesis by (cases b) (simp_all add: check_response_def)
    qed
  qed
qed

text \<open>
  Claim C4, as the code has it. Once the column values are converted, \<^verbatim>\<open>create_item\<close>
  returns \<^verbatim>\<open>None\<close> when the request raises, when the status is not exactly 200, when
  the body is not JSON, and when the test \<^verbatim>\<open>'errors' in response_data\<close> is true or
  raises; otherwise it returns the parsed body. A 2xx status other than 200 gives
  \<^verbatim>\<open>None\<close>. When the conversion raises, that exception is the outcome.
\<close>

theorem create_item_result:
  "fst (create_item self rem log nm cv) =
     (case convert_columns (columns self) (case cv of None \<Rightarrow> [] | Some c \<Rightarrow> c) [] of
        Inl e \<Rightarrow> Inl e
      | Inr mcv \<Rightarrow>
          Inr (case rem log (create_request self nm mcv) of
                 Raised e \<Rightarrow> None
               | Response resp \<Rightarrow>
                   if status_code resp = 200
                      \<and> (\<exists>d. body resp = Some d \<and> py_in ''errors'' d = Inr False)
                   then body resp else None))"
proof (cases "convert_columns (columns self) (case cv of None \<Rightarrow> [] | Some c \<Rightarrow> c) []")
  case (Inl e)
  then show ?thesis by (simp only: create_item_cases sum.case fst_conv)
next
  case (Inr mcv)
  then show ?thesis by (simp only: create_item_cases sum.case fst_conv check_response_cases)
qed

lemma py_in_demo_created: "py_in ''errors'' (demo_created i) = Inr False"
  by (simp add: demo_created_def)

text \<open>A reply with status 201 and a body without \<^verbatim>\<open>errors\<close> is not returned.\<close>

theorem create_item_status_201_counterexample:
  "fst (create_item demo_board (\<lambda>log rq. demo_reply 201 ''7'') [] ''x'' None) = Inr None
   \<and> py_in ''errors'' (demo_created ''7'') = Inr False"
  by (simp add: create_item_cases check_response_def demo_reply_def py_in_demo_created)

theorem create_item_result_witness:
  "fst (create_item demo_board (\<lambda>log rq. demo_reply 200 ''7'') [] ''x'' None)
     = Inr (Some (demo_created ''7''))
   \<and> fst (create_item demo_board (\<lambda>log rq. Raised RequestException) [] ''x'' None) = Inr None"
  using create_item_result [of demo_board "\<lambda>log rq. demo_reply 200 ''7''" "[]" "''x''" None]
    create_item_result [of demo_board "\<lambda>log rq. Raised RequestException" "[]" "''x''" None]
  by (simp add: demo_reply_def py_in_demo_created)


lemma demo_values_payload:
  "convert_columns (columns demo_board) demo_values []
     = Inr [(''date4'', Date ''2025-04-30''), (''text'', Text ''hello'')]"
  by (simp add: demo_values_def demo_board_def convert_column_def getitem_def startswith_def
      date_value_def strip_def isspace_def zfill_def)





section \<open>Reading the payload back\<close>

lemma loads_chars_literal:
  "c \<noteq> CHR 0x22 \<Longrightarrow> c \<noteq> CHR 0x5C \<Longrightarrow>
   loads_chars (c # t) = map_option (\<lambda>(s, r). (c # s, r)) (loads_chars t)"
  by (cases t) simp_all

lemma loads_chars_escape:
  "unescape e = Some ch \<Longrightarrow> e \<noteq> CHR ''u'' \<Longrightarrow>
   loads_chars (CHR 0x5C # e # t) = map_option (\<lambda>(s, r). (ch # s, r)) (loads_chars t)"
  by simp

lemma loads_chars_u:
  "code_point a b c d = Some ch \<Longrightarrow>
   loads_chars (CHR 0x5C # CHR ''u'' # a # b # c # d # t)
     = map_option (\<lambda>(s, r). (ch # s, r)) (loads_chars t)"
  by simp

lemma hexval_digit: "k < 16 \<Longrightarrow> hexval (''0123456789abcdef'' ! k) = Some k"
proof -
  assume "k < 16"
  then have "k = 0 \<or> k = 1 \<or> k = 2 \<or> k = 3 \<or> k = 4 \<or> k = 5 \<or> k = 6 \<or> k = 7 \<or> k = 8
      \<or> k = 9 \<or> k = 10 \<or> k = 11 \<or> k = 12 \<or> k = 13 \<or> k = 14 \<or> k = 15"
    by arith
  then show ?thesis
    by (elim disjE) (simp_all add: hexval_def)
qed

lemma hex4_small:
  assumes "n < 256"
  shows "hex4 n = [CHR ''0'', CHR ''0'', ''0123456789abcdef'' ! (n div 16),
                   ''0123456789abcdef'' ! (n mod 16)]"
proof -
  have "n div 4096 = 0" and "n div 256 = 0" using assms by simp_all
  moreover have "n div 16 mod 16 = n div 16" using assms by simp
  ultimately show ?thesis by (simp add: hex4_def)
qed

lemma code_point_hex4:
  assumes "n < 256"
  shows "code_point (CHR ''0'') (CHR ''0'') (''0123456789abcdef'' ! (n div 16))
           (''0123456789abcdef'' ! (n mod 16)) = Some (char_of n)"
proof -
  have z: "hexval (CHR ''0'') = Some 0" by (simp add: hexval_def)
  have a: "hexval (''0123456789abcdef'' ! (n div 16)) = Some (n div 16)"
    using assms by (intro hexval_digit) simp
  have b: "hexval (''0123456789abcdef'' ! (n mod 16)) = Some (n mod 16)"
    by (intro hexval_digit) simp
  have "16 * (n div 16) + n mod 16 = n" by simp
  then show ?thesis using assms by (simp add: code_point_def z a b)
qed

lemma loads_chars_esc_char:
  "loads_chars (esc_char c @ t) = map_option (\<lambda>(s, r). (c # s, r)) (loads_chars t)"
proof -
  consider (quote) "c = CHR 0x22" | (bs) "c = CHR 0x5C" | (nl) "c = CHR 0x0A"
    | (cr) "c = CHR 0x0D" | (tab) "c = CHR 0x09" | (b) "c = CHR 0x08" | (ff) "c = CHR 0x0C"
    | (plain) "c \<noteq> CHR 0x22" "c \<noteq> CHR 0x5C" "c \<noteq> CHR 0x0A" "c \<noteq> CHR 0x0D" "c \<noteq> CHR 0x09"
        "c \<noteq> CHR 0x08" "c \<noteq> CHR 0x0C" "32 \<le> (of_char c :: nat) \<and> (of_char c :: nat) \<le> 126"
    | (other) "c \<noteq> CHR 0x22" "c \<noteq> CHR 0x5C" "c \<noteq> CHR 0x0A" "c \<noteq> CHR 0x0D" "c \<noteq> CHR 0x09"
        "c \<noteq> CHR 0x08" "c \<noteq> CHR 0x0C" "\<not> (32 \<le> (of_char c :: nat) \<and> (of_char c :: nat) \<le> 126)"
    by blast
  then show ?thesis
  proof cases
    case quote
    then show ?thesis by (simp add: esc_char_def unescape_def)
  next
    case bs
    then show ?thesis by (simp add: esc_char_def unescape_def)
  next
    case nl
    then show ?thesis by (simp add: esc_char_def unescape_def)
  next
    case cr
    then show ?thesis by (simp add: esc_char_def unescape_def)
  next
    case tab
    then show ?thesis by (simp add: esc_char_def unescape_def)
  next
    case b
    then show ?thesis by (simp add: esc_char_def unescape_def)
  next
    case ff
    then show ?thesis by (simp add: esc_char_def unescape_def)
  next
    case plain
    then have "esc_char c = [c]" by (simp add: esc_char_def)
    then have "esc_char c @ t = c # t" by simp
    then show ?thesis using loads_chars_literal [OF plain(1,2), of t] by (simp only:)
  next
    case other
    have lt: "(of_char c :: nat) < 256" by simp
    have "esc_char c = [CHR 0x5C, CHR ''u''] @ hex4 (of_char c)"
      using other by (simp add: esc_char_def)
    then have e: "esc_char c @ t = CHR 0x5C # CHR ''u'' # CHR ''0'' # CHR ''0''
         # ''0123456789abcdef'' ! (of_char c div 16) # ''0123456789abcdef'' ! (of_char c mod 16) # t"
      by (simp add: hex4_small [OF lt])
    show ?thesis
      unfolding e by (simp only: loads_chars_u [OF code_point_hex4 [OF lt]] char_of_char)
  qed
qed

lemma loads_chars_dumps:
  "loads_chars (concat (map esc_char s) @ CHR 0x22 # r) = Some (s, r)"
proof (induction s)
  case Nil
  show ?case by (cases r) simp_all
next
  case (Cons c s)
  have "loads_chars (concat (map esc_char (c # s)) @ CHR 0x22 # r)
          = loads_chars (esc_char c @ (concat (map esc_char s) @ CHR 0x22 # r))" by simp
  also have "\<dots> = map_option (\<lambda>(s, r). (c # s, r)) (loads_chars (concat (map esc_char s) @ CHR 0x22 # r))"
    by (rule loads_chars_esc_char)
  also have "\<dots> = Some (c # s, r)" by (simp add: Cons.IH)
  finally show ?case .
qed

lemma loads_str_dumps: "loads_str (dumps_str s @ r) = Some (s, r)"
  by (simp add: loads_str_def dumps_str_def loads_chars_dumps)


lemma loads_value_dumps: "loads_value (dumps_value v @ r) = Some (v, r)"
proof (cases v)
  case (Text s)
  then show ?thesis by (simp add: loads_value_def loads_str_dumps)
next
  case (Date d)
  have a: "dumps_value v @ r
             = CHR ''{'' # (dumps_str ''date'' @ ('': '' @ (dumps_str d @ (''}'' @ r))))"
    by (simp add: Date)
  have n: "loads_str (CHR ''{'' # t) = None" for t by (simp add: loads_str_def)
  have e1: "expect ''{'' (CHR ''{'' # t) = Some t" for t by (simp add: expect_def)
  have e2: "expect '': '' ('': '' @ t) = Some t" for t by (simp add: expect_def)
  have e3: "expect ''}'' (''}'' @ t) = Some t" for t by (simp add: expect_def)
  show ?thesis
    unfolding a loads_value_def
    by (simp only: n e1 e2 e3 loads_str_dumps option.case prod.case if_False simp_thms Date)
qed

lemma loads_member_dumps:
  "loads_member (dumps_str k @ '': '' @ dumps_value v @ r) = Some ((k, v), r)"
proof -
  have e2: "expect '': '' ('': '' @ t) = Some t" for t by (simp add: expect_def)
  show ?thesis
    unfolding loads_member_def
    by (simp only: loads_str_dumps e2 loads_value_dumps option.case prod.case)
qed

lemma dumps_str_head: "dumps_str k @ t = CHR 0x22 # (concat (map esc_char k) @ CHR 0x22 # t)"
  by (simp add: dumps_str_def)

lemma loads_members_dumps:
  assumes "d \<noteq> []" and "length d \<le> n"
  shows "loads_members n
           (join '', '' (map (\<lambda>(k, v). dumps_str k @ '': '' @ dumps_value v) d) @ ''}'') = Some d"
  using assms
proof (induction d arbitrary: n)
  case Nil
  then show ?case by simp
next
  case (Cons m d)
  obtain k v where m: "m = (k, v)" by (cases m)
  obtain n' where n: "n = Suc n'" using Cons.prems(2) by (cases n) auto
  let ?mem = "\<lambda>(k, v). dumps_str k @ '': '' @ dumps_value v"
  show ?case
  proof (cases d)
    case Nil
    have t: "join '', '' (map ?mem (m # d)) @ ''}'' = dumps_str k @ '': '' @ dumps_value v @ ''}''"
      by (simp add: Nil m)
    show ?thesis
      unfolding t n
      by (simp only: loads_members.simps loads_member_dumps option.case prod.case m Nil) simp
  next
    case (Cons m' d')
    let ?rest = "join '', '' (map ?mem d) @ ''}''"
    have t: "join '', '' (map ?mem (m # d)) @ ''}''
               = dumps_str k @ '': '' @ dumps_value v @ ('', '' @ ?rest)"
      by (simp add: Cons m)
    have ne: "'', '' @ ?rest \<noteq> ''}''" by simp
    have e: "expect '', '' ('', '' @ ?rest) = Some ?rest" by (simp add: expect_def)
    have ih: "loads_members n' ?rest = Some d"
      using Cons.IH [of n'] Cons.prems(2) n Cons by simp
    show ?thesis
      unfolding t n
      by (simp only: loads_members.simps loads_member_dumps option.case prod.case ne if_False e ih
          option.map m)
  qed
qed

lemma join_length:
  "\<forall>x \<in> set xs. x \<noteq> [] \<Longrightarrow> length xs \<le> length (join sep xs)"
proof (induction sep xs rule: join.induct)
  case (1 sep)
  show ?case by simp
next
  case (2 sep x)
  then show ?case by (cases x) simp_all
next
  case (3 sep x y ys)
  then have "x \<noteq> []" and "length (y # ys) \<le> length (join sep (y # ys))" by simp_all
  then show ?case by (cases x) simp_all
qed

lemma json_loads_dumps: "json_loads (json_dumps d) = Some d"
proof (cases d)
  case Nil
  then show ?thesis by (simp add: json_loads_def json_dumps_def)
next
  case (Cons m d')
  let ?mem = "\<lambda>(k, v). dumps_str k @ '': '' @ dumps_value v"
  let ?body = "join '', '' (map ?mem d) @ ''}''"
  obtain k v where m: "m = (k, v)" by (cases m)
  have jd: "json_dumps d = CHR ''{'' # ?body" by (simp add: json_dumps_def)
  have hd_body: "\<exists>t. ?body = CHR 0x22 # t"
    by (cases d') (simp_all add: Cons m dumps_str_def)
  then have ne: "CHR ''{'' # ?body \<noteq> ''{}''" by auto
  have e: "expect ''{'' (CHR ''{'' # ?body) = Some ?body" by (simp add: expect_def)
  have mem_ne: "\<forall>x \<in> set (map ?mem d). x \<noteq> []" by (auto simp: dumps_str_def)
  have "length d \<le> length (join '', '' (map ?mem d))"
    using join_length [OF mem_ne, of "'', ''"] by simp
  then have fuel: "length d \<le> length (CHR ''{'' # ?body)" by simp
  have "loads_members (length (CHR ''{'' # ?body)) ?body = Some d"
    using Cons fuel by (intro loads_members_dumps) simp_all
  then show ?thesis
    unfolding json_loads_def jd by (simp only: ne if_False e option.case)
qed


section \<open>The resolved map\<close>

lemma update_new_key: "k \<notin> fst ` set al \<Longrightarrow> AList.update k v al = al @ [(k, v)]"
  by (induction al) auto

lemma convert_column_plain:
  assumes "t \<in> fst ` set cols" and "\<not> startswith (column_id_of cols t) ''date''"
    and "py_str v = Inr s"
  shows "convert_column cols (t, v) mcv = Inr (AList.update (column_id_of cols t) (Text s) mcv)"
proof -
  from assms(1) obtain info where g: "getitem cols t = Inr info" and m: "map_of cols t = Some info"
    by (rule getitem_member)
  have c: "column_id_of cols t = col_id info" by (simp add: column_id_of_def m)
  show ?thesis
    unfolding convert_column_def
    using assms(2) by (simp only: prod.case assms(1) if_True g sum.case Let_def c if_False assms(3))
qed

lemma convert_column_unknown:
  "t \<notin> fst ` set cols \<Longrightarrow> convert_column cols (t, v) mcv = Inr mcv"
  unfolding convert_column_def by (simp only: prod.case if_False)

lemma convert_columns_plain:
  assumes "distinct (map (\<lambda>(t, v). column_id_of cols t) (known_values cols c))"
    and "\<forall>(t, v) \<in> set (known_values cols c).
            \<not> startswith (column_id_of cols t) ''date'' \<and> renders v"
    and "(\<lambda>(t, v). column_id_of cols t) ` set (known_values cols c) \<inter> fst ` set mcv = {}"
  shows "convert_columns cols c mcv = Inr (mcv @ resolved_map cols c)"
  using assms
proof (induction c arbitrary: mcv)
  case Nil
  show ?case by (simp add: resolved_map_def known_values_def)
next
  case (Cons item c)
  obtain t v where item: "item = (t, v)" by (cases item)
  show ?case
  proof (cases "t \<in> fst ` set cols")
    case False
    have kv: "known_values cols (item # c) = known_values cols c"
      using False by (simp add: known_values_def item)
    have "convert_columns cols (item # c) mcv = convert_columns cols c mcv"
      by (simp add: item convert_column_unknown [OF False])
    also have "\<dots> = Inr (mcv @ resolved_map cols c)"
      using Cons.prems by (intro Cons.IH) (simp_all only: kv)
    finally show ?thesis by (simp add: resolved_map_def kv)
  next
    case True
    have kv: "known_values cols (item # c) = (t, v) # known_values cols c"
      using True by (simp add: known_values_def item)
    from Cons.prems(2) have nd: "\<not> startswith (column_id_of cols t) ''date''" and r: "renders v"
      by (simp_all add: kv)
    from r obtain s where s: "py_str v = Inr s" by (cases "py_str v") (simp_all add: renders_def)
    have new: "column_id_of cols t \<notin> fst ` set mcv" using Cons.prems(3) by (auto simp: kv)
    let ?mcv = "mcv @ [(column_id_of cols t, Text s)]"
    have step: "convert_columns cols (item # c) mcv = convert_columns cols c ?mcv"
      by (simp add: item convert_column_plain [OF True nd s] update_new_key [OF new])
    have d: "distinct (map (\<lambda>(t, v). column_id_of cols t) (known_values cols c))"
      using Cons.prems(1) by (simp add: kv)
    have p: "\<forall>(t, v) \<in> set (known_values cols c).
            \<not> startswith (column_id_of cols t) ''date'' \<and> renders v"
      using Cons.prems(2) by (simp add: kv)
    have notin: "column_id_of cols t \<notin> (\<lambda>(t, v). column_id_of cols t) ` set (known_values cols c)"
      using Cons.prems(1) by (simp add: kv image_iff)
    have disj: "(\<lambda>(t, v). column_id_of cols t) ` set (known_values cols c) \<inter> fst ` set ?mcv = {}"
      using Cons.prems(3) notin by (auto simp: kv)
    have "convert_columns cols c ?mcv = Inr (?mcv @ resolved_map cols c)"
      by (rule Cons.IH [OF d p disj])
    then show ?thesis
      unfolding step by (simp add: resolved_map_def kv s)
  qed
qed

lemma convert_columns_resolved:
  "plain_values cols c \<Longrightarrow> convert_columns cols c [] = Inr (resolved_map cols c)"
  using convert_columns_plain [of cols c "[]"] by (simp add: plain_values_def)


lemma json_dumps_empty: "json_dumps [] = ''{}''"
  by (simp add: json_dumps_def)

text \<open>
  Claim C8. \<^verbatim>\<open>create_item\<close> posts one request whose variables carry the board id, the
  item name and the payload as one string, and that string is JSON for the payload: read
  back, it gives the payload again. For column values that resolve to different columns,
  none a date column, the payload is the resolved map: the string of every value whose
  title the board has, under its column id, in order. With no column values, or an empty
  dictionary, the string is \<^verbatim>\<open>{}\<close>, the request is posted all the same, and a reply
  with status 200 and no \<^verbatim>\<open>errors\<close> is returned as the created item.
\<close>

theorem create_item_serializes_column_values:
  "(\<forall>mcv. convert_columns (columns self) (case cv of None \<Rightarrow> [] | Some c \<Rightarrow> c) [] = Inr mcv \<longrightarrow>
      snd (create_item self rem log nm cv) =
        log @ [\<lparr>url = apiUrl self, req_headers = headers self, query = createItemMutation,
                variables = Some \<lparr>boardId = board self, itemName = nm,
                                  columnValues = json_dumps mcv\<rparr>\<rparr>]
      \<and> json_loads (json_dumps mcv) = Some mcv)
   \<and> (\<forall>c. cv = Some c \<and> plain_values (columns self) c \<longrightarrow>
      snd (create_item self rem log nm cv) =
        log @ [\<lparr>url = apiUrl self, req_headers = headers self, query = createItemMutation,
                variables = Some \<lparr>boardId = board self, itemName = nm,
                                  columnValues = json_dumps (resolved_map (columns self) c)\<rparr>\<rparr>]
      \<and> json_loads (json_dumps (resolved_map (columns self) c))
            = Some (resolved_map (columns self) c))
   \<and> snd (create_item self rem log nm None) =
        log @ [\<lparr>url = apiUrl self, req_headers = headers self, query = createItemMutation,
                variables = Some \<lparr>boardId = board self, itemName = nm, columnValues = ''{}''\<rparr>\<rparr>]
   \<and> create_item self rem log nm (Some []) = create_item self rem log nm None
   \<and> (rem log \<lparr>url = apiUrl self, req_headers = headers self, query = createItemMutation,
                 variables = Some \<lparr>boardId = board self, itemName = nm, columnValues = ''{}''\<rparr>\<rparr>
          = Response resp
        \<and> status_code resp = 200 \<and> body resp = Some d \<and> py_in ''errors'' d = Inr False
       \<longrightarrow> fst (create_item self rem log nm None) = Inr (Some d))"
proof -
  have a: "snd (create_item self rem log nm cv) =
        log @ [\<lparr>url = apiUrl self, req_headers = headers self, query = createItemMutation,
                variables = Some \<lparr>boardId = board self, itemName = nm,
                                  columnValues = json_dumps mcv\<rparr>\<rparr>]
      \<and> json_loads (json_dumps mcv) = Some mcv"
    if "convert_columns (columns self) (case cv of None \<Rightarrow> [] | Some c \<Rightarrow> c) [] = Inr mcv"
    for cv mcv
    using that by (simp only: create_item_cases sum.case snd_conv create_request_def
        json_loads_dumps simp_thms)
  have b: "snd (create_item self rem log nm cv) =
        log @ [\<lparr>url = apiUrl self, req_headers = headers self, query = createItemMutation,
                variables = Some \<lparr>boardId = board self, itemName = nm,
                                  columnValues = json_dumps (resolved_map (columns self) c)\<rparr>\<rparr>]
      \<and> json_loads (json_dumps (resolved_map (columns self) c))
            = Some (resolved_map (columns self) c)"
    if "cv = Some c" and "plain_values (columns self) c" for c
    using a [of cv "resolved_map (columns self) c"] convert_columns_resolved [OF that(2)]
    by (simp add: that(1))
  have c: "snd (create_item self rem log nm None) =
        log @ [\<lparr>url = apiUrl self, req_headers = headers self, query = createItemMutation,
                variables = Some \<lparr>boardId = board self, itemName = nm, columnValues = ''{}''\<rparr>\<rparr>]"
    using a [of None "[]"] by (simp add: json_dumps_empty)
  have d: "create_item self rem log nm (Some []) = create_item self rem log nm None"
    by (simp add: create_item_def)
  have e: "fst (create_item self rem log nm None) = Inr (Some d)"
    if "rem log \<lparr>url = apiUrl self, req_headers = headers self, query = createItemMutation,
                 variables = Some \<lparr>boardId = board self, itemName = nm, columnValues = ''{}''\<rparr>\<rparr>
          = Response resp"
      and "status_code resp = 200" and "body resp = Some d" and "py_in ''errors'' d = Inr False"
    using that
    by (simp add: create_item_cases create_request_def json_dumps_empty check_response_def)
  from a b c d e show ?thesis by blast
qed

lemma demo_blob_dumps:
  "json_dumps [(''date4'', Date ''2025-04-30''), (''text'', Text ''hello'')] = demo_blob"
  by (simp add: json_dumps_def dumps_str_def esc_char_def demo_blob_def)

lemma demo_plain_values:
  "plain_values (columns demo_board) [(''Notes'', PyStr ''hello''), (''Owner'', PyStr ''x'')]"
  by (simp add: plain_values_def known_values_def column_id_of_def demo_board_def
      startswith_def renders_def)

lemma demo_resolved_map:
  "resolved_map (columns demo_board) [(''Notes'', PyStr ''hello''), (''Owner'', PyStr ''x'')]
     = [(''text'', Text ''hello'')]"
  by (simp add: resolved_map_def known_values_def column_id_of_def demo_board_def)

theorem create_item_serializes_column_values_witness:
  "snd (create_item demo_board (\<lambda>log rq. demo_reply 200 ''7'') [] ''x'' (Some demo_values)) =
     [\<lparr>url = ''https://api.monday.com/v2'', req_headers = [(''Authorization'', Some ''k'')],
       query = createItemMutation,
       variables = Some \<lparr>boardId = Some ''42'', itemName = ''x'', columnValues = demo_blob\<rparr>\<rparr>]
   \<and> json_loads demo_blob = Some [(''date4'', Date ''2025-04-30''), (''text'', Text ''hello'')]
   \<and> plain_values (columns demo_board) [(''Notes'', PyStr ''hello''), (''Owner'', PyStr ''x'')]
   \<and> json_loads (columnValues (the (variables (last (snd
         (create_item demo_board (\<lambda>log rq. demo_reply 200 ''7'') [] ''x''
            (Some [(''Notes'', PyStr ''hello''), (''Owner'', PyStr ''x'')])))))))
       = Some [(''text'', Text ''hello'')]
   \<and> snd (create_item demo_board (\<lambda>log rq. demo_reply 200 ''7'') [] ''x'' None) =
     [\<lparr>url = ''https://api.monday.com/v2'', req_headers = [(''Authorization'', Some ''k'')],
       query = createItemMutation,
       variables = Some \<lparr>boardId = Some ''42'', itemName = ''x'', columnValues = ''{}''\<rparr>\<rparr>]
   \<and> fst (create_item demo_board (\<lambda>log rq. demo_reply 200 ''7'') [] ''x'' None)
       = Inr (Some (demo_created ''7''))"
proof -
  note t = create_item_serializes_column_values
    [of demo_board _ "\<lambda>log rq. demo_reply 200 ''7''" "[]" "''x''"
        "\<lparr>status_code = 200, resp_text = [], body = Some (demo_created ''7'')\<rparr>"
        "demo_created ''7''"]
  have sel: "apiUrl demo_board = ''https://api.monday.com/v2''"
    "headers demo_board = [(''Authorization'', Some ''k'')]" "board demo_board = Some ''42''"
    by (simp_all add: demo_board_def)
  from t [of "Some demo_values", THEN conjunct1] demo_values_payload
  have w1: "snd (create_item demo_board (\<lambda>log rq. demo_reply 200 ''7'') [] ''x'' (Some demo_values)) =
     [\<lparr>url = ''https://api.monday.com/v2'', req_headers = [(''Authorization'', Some ''k'')],
       query = createItemMutation,
       variables = Some \<lparr>boardId = Some ''42'', itemName = ''x'', columnValues = demo_blob\<rparr>\<rparr>]"
    and w2: "json_loads demo_blob = Some [(''date4'', Date ''2025-04-30''), (''text'', Text ''hello'')]"
    by (simp_all add: demo_blob_dumps sel)
  from t [of "Some [(''Notes'', PyStr ''hello''), (''Owner'', PyStr ''x'')]",
          THEN conjunct2, THEN conjunct1, rule_format, OF conjI [OF refl demo_plain_values]]
  have w3: "json_loads (columnValues (the (variables (last (snd
         (create_item demo_board (\<lambda>log rq. demo_reply 200 ''7'') [] ''x''
            (Some [(''Notes'', PyStr ''hello''), (''Owner'', PyStr ''x'')])))))))
       = Some [(''text'', Text ''hello'')]"
    by (simp add: demo_resolved_map)
  from t [of None, THEN conjunct2, THEN conjunct2]
  have w4: "snd (create_item demo_board (\<lambda>log rq. demo_reply 200 ''7'') [] ''x'' None) =
     [\<lparr>url = ''https://api.monday.com/v2'', req_headers = [(''Authorization'', Some ''k'')],
       query = createItemMutation,
       variables = Some \<lparr>boardId = Some ''42'', itemName = ''x'', columnValues = ''{}''\<rparr>\<rparr>]"
    and w5: "fst (create_item demo_board (\<lambda>log rq. demo_reply 200 ''7'') [] ''x'' None)
       = Inr (Some (demo_created ''7''))"
    by (simp_all add: sel demo_reply_def py_in_demo_created)
  from w1 w2 demo_plain_values w3 w4 w5 show ?thesis by blast
qed

section \<open>update_column_value\<close>

text \<open>
  Claim C7, as the code has it. When the title is not in the column map,
  \<^verbatim>\<open>update_column_value\<close> raises ValueError and sends nothing. When it is, the column id
  is resolved and one update request is posted; the parsed body is returned, and an
  exception of the request or of \<^verbatim>\<open>response.json()\<close> reaches the caller.
\<close>

theorem update_column_value_outcome:
  "(column_title \<notin> fst ` set (columns self) \<longrightarrow>
      update_column_value self rem log item_id column_title v = (Inl ValueError, log))
   \<and> (column_title \<in> fst ` set (columns self) \<longrightarrow>
        (\<exists>info. map_of (columns self) column_title = Some info
           \<and> update_column_value self rem log item_id column_title v =
               (case rem log (update_request self item_id (col_id info) v) of
                  Raised e \<Rightarrow> Inl e
                | Response resp \<Rightarrow>
                    (case body resp of None \<Rightarrow> Inl JSONDecodeError | Some d \<Rightarrow> Inr d),
                log @ [update_request self item_id (col_id info) v])))"
proof (intro conjI impI)
  assume "column_title \<notin> fst ` set (columns self)"
  then show "update_column_value self rem log item_id column_title v = (Inl ValueError, log)"
    by (simp add: update_column_value_def)
next
  assume mem: "column_title \<in> fst ` set (columns self)"
  then obtain info where g: "getitem (columns self) column_title = Inr info"
    and m: "map_of (columns self) column_title = Some info"
    by (rule getitem_member)
  let ?rq = "update_request self item_id (col_id info) v"
  have "update_column_value self rem log item_id column_title v =
               (case rem log ?rq of
                  Raised e \<Rightarrow> Inl e
                | Response resp \<Rightarrow>
                    (case body resp of None \<Rightarrow> Inl JSONDecodeError | Some d \<Rightarrow> Inr d),
                log @ [?rq])"
  proof (cases "rem log ?rq")
    case (Raised e)
    then show ?thesis
      unfolding update_column_value_def by (simp add: mem g post_def)
  next
    case (Response resp)
    then show ?thesis
      unfolding update_column_value_def by (cases "body resp") (simp_all add: mem g post_def)
  qed
  with m show "\<exists>info. map_of (columns self) column_title = Some info
           \<and> update_column_value self rem log item_id column_title v =
               (case rem log (update_request self item_id (col_id info) v) of
                  Raised e \<Rightarrow> Inl e
                | Response resp \<Rightarrow>
                    (case body resp of None \<Rightarrow> Inl JSONDecodeError | Some d \<Rightarrow> Inr d),
                log @ [update_request self item_id (col_id info) v])"
    by blast
qed

lemma demo_board_Notes: "''Notes'' \<in> fst ` set (columns demo_board)"
  by (simp add: demo_board_def)

lemma demo_board_Missing: "''Owner'' \<notin> fst ` set (columns demo_board)"
  by (simp add: demo_board_def)

theorem update_column_value_outcome_witness:
  "update_column_value demo_board (\<lambda>log rq. demo_reply 200 ''7'') [] ''7'' ''Owner'' ''x''
     = (Inl ValueError, [])
   \<and> update_column_value demo_board (\<lambda>log rq. demo_reply 200 ''7'') [] ''7'' ''Notes'' ''x''
     = (Inr (demo_created ''7''), [update_request demo_board ''7'' ''text'' ''x''])"
proof -
  note t = update_column_value_outcome
    [of _ demo_board "\<lambda>log rq. demo_reply 200 ''7''" "[]" "''7''" "''x''"]
  from t [of "''Owner''"] demo_board_Missing
  have a: "update_column_value demo_board (\<lambda>log rq. demo_reply 200 ''7'') [] ''7'' ''Owner'' ''x''
     = (Inl ValueError, [])" by blast
  have m: "map_of (columns demo_board) ''Notes'' = Some info \<longleftrightarrow> info = \<lparr>col_id = ''text'', col_index = 1\<rparr>"
    for info by (auto simp: demo_board_def)
  from t [of "''Notes''"] demo_board_Notes
  have b: "update_column_value demo_board (\<lambda>log rq. demo_reply 200 ''7'') [] ''7'' ''Notes'' ''x''
     = (Inr (demo_created ''7''), [update_request demo_board ''7'' ''text'' ''x''])"
    by (simp add: m demo_reply_def)
  from a b show ?thesis by (rule conjI)
qed

text \<open>With the title present and the network down, the call raises.\<close>

theorem update_column_value_raises_counterexample:
  "''Notes'' \<in> fst ` set (columns demo_board)
   \<and> fst (update_column_value demo_board (\<lambda>log rq. Raised RequestException) [] ''7'' ''Notes'' ''x'')
       = Inl RequestException"
  by (simp add: update_column_value_def demo_board_def getitem_def post_def)

section \<open>importBoardColumns\<close>

lemma build_columns_distinct:
  assumes "distinct (map title cols)" and "set (map title cols) \<inter> fst ` set acc = {}"
  shows "build_columns cols x acc =
           acc @ map (\<lambda>k. (title (cols ! k), \<lparr>col_id = id' (cols ! k), col_index = x + int k\<rparr>))
                   [0..<length cols]"
  using assms
proof (induction cols arbitrary: x acc)
  case Nil
  show ?case by simp
next
  case (Cons c cs)
  have new: "title c \<notin> fst ` set acc" using Cons.prems(2) by auto
  have d: "distinct (map title cs)" using Cons.prems(1) by simp
  have disj: "set (map title cs) \<inter> fst ` set (acc @ [(title c, \<lparr>col_id = id' c, col_index = x\<rparr>)]) = {}"
    using Cons.prems by auto
  have "build_columns (c # cs) x acc =
          build_columns cs (x + 1) (acc @ [(title c, \<lparr>col_id = id' c, col_index = x\<rparr>)])"
    by (simp add: update_new_key [OF new])
  also have "\<dots> = (acc @ [(title c, \<lparr>col_id = id' c, col_index = x\<rparr>)]) @
       map (\<lambda>k. (title (cs ! k), \<lparr>col_id = id' (cs ! k), col_index = x + 1 + int k\<rparr>)) [0..<length cs]"
    by (rule Cons.IH [OF d disj])
  also have "\<dots> = acc @ map (\<lambda>k. (title ((c # cs) ! k),
                 \<lparr>col_id = id' ((c # cs) ! k), col_index = x + int k\<rparr>)) [0..<length (c # cs)]"
    by (simp add: upt_conv_Cons map_Suc_upt [symmetric] del: upt_Suc)
  finally show ?case .
qed


text \<open>
  Claim C6, as the code has it. The running index starts at \<open>-1\<close> and grows by one per
  column of the response, whatever the column is: with distinct titles, the column at
  position \<open>k\<close> gets index \<open>k - 1\<close>. So when the response lists the name column first,
  that column has index \<open>-1\<close> and the columns after it have 0, 1, 2, ... in order.
\<close>

theorem importBoardColumns_running_index:
  assumes "distinct (map title cols)"
  shows "importBoardColumns (Inr cols) =
           Inr (map (\<lambda>k. (title (cols ! k), \<lparr>col_id = id' (cols ! k), col_index = int k - 1\<rparr>))
                  [0..<length cols])
       \<and> (\<forall>c rest. cols = c # rest \<longrightarrow>
             (case importBoardColumns (Inr cols) of
                Inl e \<Rightarrow> False
              | Inr columnDict \<Rightarrow>
                  map_of columnDict (title c) = Some \<lparr>col_id = id' c, col_index = - 1\<rparr>
                  \<and> map (\<lambda>r. map_option col_index (map_of columnDict (title r))) rest
                      = map (\<lambda>k. Some (int k)) [0..<length rest]))"
proof -
  let ?f = "\<lambda>k. (title (cols ! k), \<lparr>col_id = id' (cols ! k), col_index = int k - 1\<rparr>)"
  have eq: "importBoardColumns (Inr cols) = Inr (map ?f [0..<length cols])"
    using build_columns_distinct [OF assms, of "[]" "- 1"]
    by (simp add: importBoardColumns_def)
  have dist: "distinct (map fst (map ?f [0..<length cols]))"
  proof -
    have "map fst (map ?f [0..<length cols]) = map title cols"
      by (rule nth_equalityI) simp_all
    with assms show ?thesis by simp
  qed
  have look: "map_of (map ?f [0..<length cols]) (title (cols ! k))
                = Some \<lparr>col_id = id' (cols ! k), col_index = int k - 1\<rparr>"
    if "k < length cols" for k
  proof -
    have "?f k \<in> set (map ?f [0..<length cols])" using that by simp
    then show ?thesis using dist by (simp only: map_of_is_SomeI [OF dist] fst_conv snd_conv)
  qed
  have second: "map_of (map ?f [0..<length cols]) (title c) = Some \<lparr>col_id = id' c, col_index = - 1\<rparr>
        \<and> map (\<lambda>r. map_option col_index (map_of (map ?f [0..<length cols]) (title r))) rest
             = map (\<lambda>k. Some (int k)) [0..<length rest]"
    if c: "cols = c # rest" for c rest
  proof
    show "map_of (map ?f [0..<length cols]) (title c) = Some \<lparr>col_id = id' c, col_index = - 1\<rparr>"
      using look [of 0] c by simp
    show "map (\<lambda>r. map_option col_index (map_of (map ?f [0..<length cols]) (title r))) rest
             = map (\<lambda>k. Some (int k)) [0..<length rest]"
    proof (rule nth_equalityI)
      show "length (map (\<lambda>r. map_option col_index (map_of (map ?f [0..<length cols]) (title r))) rest)
              = length (map (\<lambda>k. Some (int k)) [0..<length rest])" by simp
    next
      fix i assume "i < length (map (\<lambda>r. map_option col_index (map_of (map ?f [0..<length cols]) (title r))) rest)"
      then have i: "i < length rest" by simp
      then have "Suc i < length cols" using c by simp
      from look [OF this] have "map_of (map ?f [0..<length cols]) (title (rest ! i))
           = Some \<lparr>col_id = id' (rest ! i), col_index = int i\<rparr>"
        using c by simp
      then show "map (\<lambda>r. map_option col_index (map_of (map ?f [0..<length cols]) (title r))) rest ! i
              = map (\<lambda>k. Some (int k)) [0..<length rest] ! i"
        using i by simp
    qed
  qed
  show ?thesis
    unfolding eq using second by simp
qed

theorem importBoardColumns_running_index_witness:
  "importBoardColumns (Inr demo_schema) =
     Inr [(''Name'', \<lparr>col_id = ''name'', col_index = - 1\<rparr>),
          (''Due'', \<lparr>col_id = ''date4'', col_index = 0\<rparr>),
          (''Notes'', \<lparr>col_id = ''text'', col_index = 1\<rparr>)]"
proof -
  have d: "distinct (map title demo_schema)" by (simp add: demo_schema_def)
  have u: "[0..<length demo_schema] = [0, 1, 2]" by (simp add: demo_schema_def upt_rec)
  from importBoardColumns_running_index [OF d] show ?thesis
    by (simp add: u) (simp add: demo_schema_def)
qed

text \<open>
  A response without a name column gives its first column index \<open>-1\<close>; a response with
  a repeated title keeps one entry for it, with the index of the last.
\<close>

theorem importBoardColumns_index_counterexample:
  "importBoardColumns (Inr [\<lparr>id' = ''status'', title = ''Status''\<rparr>, \<lparr>id' = ''text'', title = ''Notes''\<rparr>])
     = Inr [(''Status'', \<lparr>col_id = ''status'', col_index = - 1\<rparr>),
            (''Notes'', \<lparr>col_id = ''text'', col_index = 0\<rparr>)]
   \<and> importBoardColumns (Inr [\<lparr>id' = ''name'', title = ''Name''\<rparr>, \<lparr>id' = ''text'', title = ''Notes''\<rparr>,
                              \<lparr>id' = ''text1'', title = ''Notes''\<rparr>])
     = Inr [(''Name'', \<lparr>col_id = ''name'', col_index = - 1\<rparr>),
            (''Notes'', \<lparr>col_id = ''text1'', col_index = 1\<rparr>)]"
  by (simp add: importBoardColumns_def)


section \<open>upload_excel_data\<close>


















lemma row_column_values_fold:
  assumes "distinct (map fst r)" and "fst ` set r \<inter> fst ` set acc = {}"
  shows "fold (\<lambda>(column_name, v) column_values.
             if Some column_name \<noteq> name_column \<and> notna v
             then AList.update column_name v column_values else column_values) r acc
         = acc @ filter (\<lambda>(column_name, v). Some column_name \<noteq> name_column \<and> notna v) r"
  using assms
proof (induction r arbitrary: acc)
  case Nil
  show ?case by simp
next
  case (Cons c r)
  obtain t v where c: "c = (t, v)" by (cases c)
  have new: "t \<notin> fst ` set acc" using Cons.prems(2) c by auto
  have d: "distinct (map fst r)" using Cons.prems(1) by simp
  have tr: "t \<notin> fst ` set r" using Cons.prems(1) c by (simp add: image_iff) 
  show ?case
  proof (cases "Some t \<noteq> name_column \<and> notna v")
    case True
    have disj: "fst ` set r \<inter> fst ` set (acc @ [(t, v)]) = {}"
      using Cons.prems(2) tr by auto
    show ?thesis
      using True Cons.IH [OF d disj] by (simp add: c update_new_key [OF new])
  next
    case False
    have disj: "fst ` set r \<inter> fst ` set acc = {}" using Cons.prems(2) by auto
    from False have "Some t = name_column \<or> \<not> notna v" by blast
    then show ?thesis
      unfolding c using Cons.IH [OF d disj] by (elim disjE) simp_all
  qed
qed

lemma row_column_values_filter:
  "distinct (map fst r) \<Longrightarrow>
   row_column_values name_column r
     = filter (\<lambda>(column_name, v). Some column_name \<noteq> name_column \<and> notna v) r"
  using row_column_values_fold [of r "[]" name_column] by (simp add: row_column_values_def)

text \<open>
  Claim C3 at a row read without \<^verbatim>\<open>name_column\<close>: the first column gives the item
  name and is kept among the column values, since line 380 compares the titles with
  \<^verbatim>\<open>None\<close>.
\<close>

theorem upload_first_column_not_excluded:
  "item_name_of None [(''Name'', PyStr ''Alice''), (''Notes'', PyStr ''hi'')] = Inr ''Alice''
   \<and> row_column_values None [(''Name'', PyStr ''Alice''), (''Notes'', PyStr ''hi'')]
       = [(''Name'', PyStr ''Alice''), (''Notes'', PyStr ''hi'')]"
  by (simp add: item_name_of_def iloc0_def row_column_values_def)


section \<open>boardGen and Board.__init__\<close>

lemma input_frame:
  "input p s = (r, s') \<Longrightarrow>
     fileDict s' = fileDict s \<and> v_boardID s' = v_boardID s \<and> v_apiKey s' = v_apiKey s"
  by (auto simp: input_def split: list.splits)

lemma prompt_missing_frame: "prompt_missing s = (r, s') \<Longrightarrow> fileDict s' = fileDict s"
  unfolding prompt_missing_def
  by (auto split: if_splits prod.splits sum.splits option.splits dest!: input_frame)

lemma prompt_missing_resolved: "prompt_missing s = (None, s') \<Longrightarrow> v_boardID s' \<noteq> None"
  unfolding prompt_missing_def
  by (auto split: if_splits prod.splits sum.splits option.splits dest!: input_frame)

lemma scan_boards_frame: "scan_boards nm bs s = (r, s') \<Longrightarrow> fileDict s' = fileDict s"
proof (induction nm bs s rule: scan_boards.induct)
  case (1 nm s)
  then show ?case by simp
next
  case (2 nm k e rest s)
  show ?case
  proof (cases "entry_name e = nm")
    case True
    with 2 show ?thesis by simp
  next
    case False
    obtain x s1 where pm: "prompt_missing s = (x, s1)" by (cases "prompt_missing s")
    have f1: "fileDict s1 = fileDict s" using pm by (rule prompt_missing_frame)
    show ?thesis
    proof (cases x)
      case None
      with 2 False pm f1 show ?thesis by simp
    next
      case (Some a)
      with 2 False pm f1 show ?thesis by simp
    qed
  qed
qed

lemma scan_boards_resolved:
  assumes "scan_boards nm bs s = (None, s')"
    and "\<forall>(k, e) \<in> set bs. p_board (entry_properties e) \<noteq> None"
    and "bs \<noteq> [] \<or> v_boardID s \<noteq> None"
  shows "v_boardID s' \<noteq> None"
  using assms
proof (induction nm bs s rule: scan_boards.induct)
  case (1 nm s)
  then show ?case by simp
next
  case (2 nm k e rest s)
  have stored: "p_board (entry_properties e) \<noteq> None"
    and rest: "\<forall>(k, e) \<in> set rest. p_board (entry_properties e) \<noteq> None"
    using "2.prems"(2) by auto
  show ?case
  proof (cases "entry_name e = nm")
    case True
    let ?s1 = "s\<lparr>v_boardID := p_board (entry_properties e), v_apiKey := p_apiKey (entry_properties e)\<rparr>"
    have "scan_boards nm rest ?s1 = (None, s')" using "2.prems"(1) True by simp
    moreover have "rest \<noteq> [] \<or> v_boardID ?s1 \<noteq> None" using stored by simp
    ultimately show ?thesis using "2.IH"(1) [OF True] rest by blast
  next
    case False
    obtain x s1 where pm: "prompt_missing s = (x, s1)" by (cases "prompt_missing s")
    show ?thesis
    proof (cases x)
      case None
      have r1: "v_boardID s1 \<noteq> None" using pm None prompt_missing_resolved by blast
      have "scan_boards nm rest s1 = (None, s')" using "2.prems"(1) False pm None by simp
      then show ?thesis using "2.IH"(2) [OF False pm [symmetric, unfolded None] refl] rest r1
        by blast
    next
      case (Some a)
      with "2.prems"(1) False pm show ?thesis by simp
    qed
  qed
qed


lemma upsert_ok:
  assumes "upsert fetch nm s = (None, s')"
  shows "\<exists>bs e. fileDict s = Some bs \<and> fileDict s' = Some (AList.update (v_boardID s) e bs)"
  using assms unfolding upsert_def
  by (auto split: sum.splits option.splits)

lemma upsert_fail: "upsert fetch nm s = (Some e, s') \<Longrightarrow> fileDict s' = fileDict s"
  unfolding upsert_def by (auto split: sum.splits option.splits)

lemma keys_of_file: "None \<notin> fst ` set (map (\<lambda>(k, e). (Some k, e)) stored)"
  by (induction stored) auto

lemma keys_update: "fst ` set (AList.update k v al) = insert k (fst ` set al)"
  by (simp add: AList.dom_update)

lemma try_block_ok:
  assumes "try_block fetch nm fc s0 = (None, s)" and "stores_board_ids fc"
  shows "\<exists>bs. fileDict s = Some bs \<and> None \<notin> fst ` set bs"
proof (cases fc)
  case Missing
  with assms(1) show ?thesis by (simp add: try_block_def)
next
  case NotJson
  with assms(1) show ?thesis by (simp add: try_block_def)
next
  case (Loaded data)
  show ?thesis
  proof (cases data)
    case None
    with Loaded assms(1) show ?thesis by (simp add: try_block_def)
  next
    case (Some st)
    let ?bs = "map (\<lambda>(k, e). (Some k, e)) st"
    obtain x s1 where sc: "scan_boards nm ?bs (s0\<lparr>fileDict := Some ?bs\<rparr>) = (x, s1)"
      by (cases "scan_boards nm ?bs (s0\<lparr>fileDict := Some ?bs\<rparr>)")
    show ?thesis
    proof (cases x)
      case (Some a)
      with Loaded \<open>data = Some st\<close> sc assms(1) show ?thesis by (simp add: try_block_def)
    next
      case None
      obtain y s2 where up: "upsert fetch nm s1 = (y, s2)" by (cases "upsert fetch nm s1")
      have y: "y = None" and s: "s = s2\<lparr>written := Some (fileDict s2)\<rparr>"
        using Loaded \<open>data = Some st\<close> sc None up assms(1)
        by (auto simp: try_block_def split: option.splits)
      have f1: "fileDict s1 = Some ?bs"
        using scan_boards_frame [OF sc] by simp
      from upsert_ok [OF up [unfolded y]] f1 obtain e where
        f2: "fileDict s2 = Some (AList.update (v_boardID s1) e ?bs)" by auto
      have ne: "?bs \<noteq> []" and pb: "\<forall>(k, e) \<in> set ?bs. p_board (entry_properties e) \<noteq> None"
        using assms(2) Loaded \<open>data = Some st\<close> by (auto simp: stores_board_ids_def)
      have "v_boardID s1 \<noteq> None"
        using scan_boards_resolved [OF sc [unfolded None] pb] ne by blast
      then have "None \<notin> fst ` set (AList.update (v_boardID s1) e ?bs)"
        using keys_of_file [of st] by (auto simp: keys_update)
      with f2 s show ?thesis by simp
    qed
  qed
qed

lemma try_block_fail:
  assumes "try_block fetch nm fc s0 = (Some x, s)" and "fileDict s0 = None"
  shows "\<forall>bs. fileDict s = Some bs \<longrightarrow> None \<notin> fst ` set bs"
proof (cases fc)
  case Missing
  with assms show ?thesis by (auto simp: try_block_def)
next
  case NotJson
  with assms show ?thesis by (auto simp: try_block_def)
next
  case (Loaded data)
  show ?thesis
  proof (cases data)
    case None
    with Loaded assms show ?thesis by (auto simp: try_block_def)
  next
    case (Some st)
    let ?bs = "map (\<lambda>(k, e). (Some k, e)) st"
    obtain y s1 where sc: "scan_boards nm ?bs (s0\<lparr>fileDict := Some ?bs\<rparr>) = (y, s1)"
      by (cases "scan_boards nm ?bs (s0\<lparr>fileDict := Some ?bs\<rparr>)")
    have f1: "fileDict s1 = Some ?bs" using scan_boards_frame [OF sc] by simp
    show ?thesis
    proof (cases y)
      case (Some a)
      then have "s = s1" using Loaded \<open>data = Some st\<close> sc assms(1) by (simp add: try_block_def)
      with f1 keys_of_file [of st] show ?thesis by simp
    next
      case None
      obtain z s2 where up: "upsert fetch nm s1 = (z, s2)" by (cases "upsert fetch nm s1")
      have z: "z = Some x" and s: "s = s2"
        using Loaded \<open>data = Some st\<close> sc None up assms(1)
        by (auto simp: try_block_def split: option.splits)
      have "fileDict s2 = fileDict s1" using up z upsert_fail by blast
      with f1 s keys_of_file [of st] show ?thesis by simp
    qed
  qed
qed

lemma except_block_ok:
  assumes "except_block fetch nm s = (None, s')"
    and "\<forall>bs. fileDict s = Some bs \<longrightarrow> None \<notin> fst ` set bs"
  shows "\<exists>bs. fileDict s' = Some bs \<and> None \<notin> fst ` set bs"
proof -
  obtain x s1 where pm: "prompt_missing s = (x, s1)" by (cases "prompt_missing s")
  let ?s1 = "if fileDict s1 = None then s1\<lparr>fileDict := Some []\<rparr> else s1"
  obtain y s2 where up: "upsert fetch nm ?s1 = (y, s2)" by (cases "upsert fetch nm ?s1")
  have x: "x = None" and y: "y = None" and s': "s' = s2\<lparr>written := Some (fileDict s2)\<rparr>"
    using assms(1) pm up by (auto simp: except_block_def split: option.splits)
  have r: "v_boardID s1 \<noteq> None" using pm x prompt_missing_resolved by blast
  have f1: "fileDict s1 = fileDict s" using pm by (rule prompt_missing_frame)
  from upsert_ok [OF up [unfolded y]] obtain bs e where
    b: "fileDict ?s1 = Some bs" and f2: "fileDict s2 = Some (AList.update (v_boardID ?s1) e bs)"
    by blast
  have "None \<notin> fst ` set bs"
  proof (cases "fileDict s1")
    case None
    with b have "bs = []" by simp
    then show ?thesis by simp
  next
    case (Some a)
    with b have "bs = a" by simp
    with Some f1 assms(2) show ?thesis by simp
  qed
  moreover have "v_boardID ?s1 \<noteq> None" using r by simp
  ultimately have "None \<notin> fst ` set (AList.update (v_boardID ?s1) e bs)"
    by (auto simp: keys_update)
  with f2 s' show ?thesis by simp
qed

lemma boardGen_keys:
  assumes "boardGen fetch fc inp nm bid key = (Inr fd, s)" and "stores_board_ids fc"
  shows "\<exists>bs. fd = Some bs \<and> None \<notin> fst ` set bs"
proof -
  let ?s0 = "\<lparr>v_boardID = bid, v_apiKey = key, fileDict = None, stdin = inp,
              prompts = [], queries = 0, written = None\<rparr>"
  obtain x s1 where tb: "try_block fetch nm fc ?s0 = (x, s1)"
    by (cases "try_block fetch nm fc ?s0")
  show ?thesis
  proof (cases x)
    case None
    then have "fd = fileDict s1" using assms(1) tb by (auto simp: boardGen_def)
    with try_block_ok [OF tb [unfolded None] assms(2)] show ?thesis by simp
  next
    case (Some e)
    obtain y s2 where eb: "except_block fetch nm s1 = (y, s2)"
      by (cases "except_block fetch nm s1")
    have y: "y = None" and fd: "fd = fileDict s2"
      using assms(1) tb Some eb by (auto simp: boardGen_def split: option.splits)
    have "\<forall>bs. fileDict s1 = Some bs \<longrightarrow> None \<notin> fst ` set bs"
      using try_block_fail [OF tb [unfolded Some]] by simp
    from except_block_ok [OF eb [unfolded y] this] fd show ?thesis by simp
  qed
qed


lemma getitem_absent: "k \<notin> fst ` set d \<Longrightarrow> getitem d k = Inl KeyError"
  by (simp add: getitem_def map_of_eq_None_iff [THEN iffD2])

text \<open>
  Claim C9, as the code has it. From a file that is absent or unreadable, or whose boards
  all store a board id (and are at least one), \<^verbatim>\<open>Board(name)\<close> without a board id never
  yields a board, also when the file holds a board of that name: when \<^verbatim>\<open>boardGen\<close>
  returns, \<^verbatim>\<open>__init__\<close> subscripts the boards with \<^verbatim>\<open>None\<close> and fails with KeyError;
  when \<^verbatim>\<open>boardGen\<close> raises (a failed schema query, the end of the input at a prompt), that
  exception is the failure.
\<close>

theorem Board_init_without_boardID:
  assumes "stores_board_ids fc"
  shows "(\<exists>e. fst (Board_init fetch fc inp nm None key) = Inl e)
       \<and> (\<forall>fd. fst (boardGen fetch fc inp nm None key) = Inr fd
              \<longrightarrow> fst (Board_init fetch fc inp nm None key) = Inl KeyError)
       \<and> (\<forall>e. fst (boardGen fetch fc inp nm None key) = Inl e
              \<longrightarrow> fst (Board_init fetch fc inp nm None key) = Inl e)"
proof -
  obtain r s where bg: "boardGen fetch fc inp nm None key = (r, s)"
    by (cases "boardGen fetch fc inp nm None key")
  show ?thesis
  proof (cases r)
    case (Inl e)
    with bg show ?thesis by (simp add: Board_init_def)
  next
    case (Inr fd)
    from boardGen_keys [OF bg [unfolded Inr] assms] obtain bs where
      fd: "fd = Some bs" and k: "None \<notin> fst ` set bs" by blast
    have "Board_init fetch fc inp nm None key = (Inl KeyError, s)"
      by (simp add: Board_init_def bg Inr fd getitem_absent [OF k])
    with bg Inr show ?thesis by simp
  qed
qed

lemma demo_file_stores: "stores_board_ids demo_file"
  by (simp add: stores_board_ids_def demo_file_def new_entry_def)

lemma demo_boardGen:
  "boardGen (\<lambda>n k b. Inr demo_schema) demo_file [''x'', ''y''] ''Beta'' None None =
    (Inr (Some [(Some ''111'', new_entry ''Alpha'' (Some ''111'') (Some ''kA'') []),
                (Some ''222'', new_entry ''Beta'' (Some ''222'') (Some ''kB'')
                                 (build_columns demo_schema (- 1) []))]),
     \<lparr>v_boardID = Some ''222'', v_apiKey = Some ''kB'',
      fileDict = Some [(Some ''111'', new_entry ''Alpha'' (Some ''111'') (Some ''kA'') []),
                (Some ''222'', new_entry ''Beta'' (Some ''222'') (Some ''kB'')
                                 (build_columns demo_schema (- 1) []))],
      stdin = [], prompts = [''API Key: '', ''Board ID: ''], queries = 1,
      written = Some (Some [(Some ''111'', new_entry ''Alpha'' (Some ''111'') (Some ''kA'') []),
                (Some ''222'', new_entry ''Beta'' (Some ''222'') (Some ''kB'')
                                 (build_columns demo_schema (- 1) []))])\<rparr>)"
  by (simp add: boardGen_def try_block_def demo_file_def prompt_missing_def input_def
      upsert_def importBoardColumns_def new_entry_def)

theorem Board_init_without_boardID_witness:
  "stores_board_ids demo_file
   \<and> fst (Board_init (\<lambda>n k b. Inr demo_schema) demo_file [''x'', ''y''] ''Beta'' None None)
       = Inl KeyError"
  using Board_init_without_boardID [OF demo_file_stores,
      of "\<lambda>n k b. Inr demo_schema" "[''x'', ''y'']" "''Beta''" None]
  by (simp add: demo_file_stores demo_boardGen)

text \<open>With the schema query failing, the failure is the request's exception, not KeyError.\<close>

theorem Board_init_network_down_counterexample:
  "fst (Board_init (\<lambda>n k b. Inl RequestException) demo_file [''x'', ''y''] ''Beta'' None None)
     = Inl RequestException"
  by (simp add: Board_init_def boardGen_def try_block_def except_block_def demo_file_def
      prompt_missing_def input_def upsert_def importBoardColumns_def new_entry_def)

text \<open>
  Claim C2 at a file whose first board has another name: \<^verbatim>\<open>boardGen\<close> asks for the
  API key and the board id while it passes that board, then replaces both answers by the
  values stored for the board of the requested name.
\<close>

theorem boardGen_prompts_before_match:
  "prompts (snd (boardGen (\<lambda>n k b. Inr demo_schema) demo_file [''x'', ''y''] ''Beta'' None None))
     = [''API Key: '', ''Board ID: '']
   \<and> v_boardID (snd (boardGen (\<lambda>n k b. Inr demo_schema) demo_file [''x'', ''y''] ''Beta'' None None))
     = Some ''222''
   \<and> v_apiKey (snd (boardGen (\<lambda>n k b. Inr demo_schema) demo_file [''x'', ''y''] ''Beta'' None None))
     = Some ''kB''"
  by (simp add: demo_boardGen)

end
